theory Spec2Isabelle
  imports Complex_Main "HOL-Library.Log_Nat"
begin

section \<open>The REST ledger of api_server.py\<close>

text \<open>
  The wallet ledger of \<^verbatim>\<open>api_server.py\<close> works on three SQLite tables created in
  \<^verbatim>\<open>database.py\<close>: \<^verbatim>\<open>wallets\<close>, \<^verbatim>\<open>merchants\<close> and \<^verbatim>\<open>transactions\<close>. A table is a
  list of rows in insertion order; a row is a record of the columns the handlers read or
  write (the JSON \<^verbatim>\<open>metadata\<close> column and the columns no handler touches are left out).

  Amounts are Python floats stored as SQLite \<^verbatim>\<open>REAL\<close>. In this section they are
  exact rationals: this is the ledger on amounts whose sums and differences are
  themselves doubles, so that no rounding takes place. Binary rounding, NaN, the
  infinities and \<^verbatim>\<open>NULL\<close> are modelled in the sections on binary64 below, where the
  statements that depend on an exact boundary are made.
  Timestamps (\<^verbatim>\<open>datetime.now()\<close>) are natural numbers supplied by the caller, and so are
  the identifiers the handlers draw from \<^verbatim>\<open>uuid\<close> and \<^verbatim>\<open>random\<close>.
\<close>

record wallet =
  wallet_id :: string
  business_id :: string
  customer_name :: string
  customer_phone :: string
  customer_email :: "string option"
  balance :: rat
  daily_limit :: rat
  ussd_code :: string
  customer_pin :: string
  status :: string
  created_at :: nat
  last_activity :: nat

record merchant =
  merchant_id :: string
  business_name :: string
  merchant_balance :: rat
  merchant_status :: string

record txn =
  transaction_id :: string
  txn_wallet_id :: string
  from_wallet :: "string option"
  to_wallet :: "string option"
  amount :: rat
  fee :: rat
  channel :: string
  description :: string
  external_reference :: "string option"
  txn_created_at :: nat
  txn_status :: string

record db =
  wallets :: "wallet list"
  merchants :: "merchant list"
  transactions :: "txn list"

text \<open>
  \<^verbatim>\<open>get_current_user\<close> returns \<^verbatim>\<open>None\<close> or a dictionary with exactly the keys
  \<^verbatim>\<open>user_id\<close> (the bearer token) and \<^verbatim>\<open>user_type\<close> (the \<^verbatim>\<open>User-Type\<close> header).
\<close>

record user =
  user_id :: string
  user_type :: string

text \<open>
  Every early \<^verbatim>\<open>return jsonify({'success': False, ...}), code\<close> of a handler is one
  constructor. The handlers run their SQL on a connection that is committed once, after the
  last statement, and closed in \<^verbatim>\<open>finally\<close>; an exception (caught as
  \<^verbatim>\<open>except Exception\<close>, HTTP 500) or an early return therefore leaves the tables as
  they were. A handler returns its answer together with the tables after the call.
\<close>

datatype error =
    CustomerAuthRequired
  | MerchantAuthRequired
  | MissingField string
  | AmountNotPositive
  | CustomerPhoneRequired
  | WalletNotFoundOrInactive
  | WalletNotFound
  | CustomerWalletNotFound
  | InsufficientBalance rat rat
  | UnauthorizedOtherMerchant
  | CustomerAlreadyHasWallet
  | InternalError

fun http_status :: "error \<Rightarrow> nat" where
  "http_status CustomerAuthRequired = 401"
| "http_status MerchantAuthRequired = 401"
| "http_status (MissingField f) = 400"
| "http_status AmountNotPositive = 400"
| "http_status CustomerPhoneRequired = 400"
| "http_status WalletNotFoundOrInactive = 404"
| "http_status WalletNotFound = 404"
| "http_status CustomerWalletNotFound = 404"
| "http_status (InsufficientBalance available required) = 400"
| "http_status UnauthorizedOtherMerchant = 403"
| "http_status CustomerAlreadyHasWallet = 409"
| "http_status InternalError = 500"

subsection \<open>SQL and Python helpers\<close>

text \<open>\<^verbatim>\<open>SELECT ... WHERE P\<close> followed by \<^verbatim>\<open>cursor.fetchone()\<close>: the first matching row.\<close>

definition fetchone :: "('a \<Rightarrow> bool) \<Rightarrow> 'a list \<Rightarrow> 'a option" where
  "fetchone P rows = find P rows"

text \<open>\<^verbatim>\<open>UPDATE ... SET ... WHERE P\<close>: every matching row is rewritten.\<close>

definition update_where :: "('a \<Rightarrow> bool) \<Rightarrow> ('a \<Rightarrow> 'a) \<Rightarrow> 'a list \<Rightarrow> 'a list" where
  "update_where P f rows = map (\<lambda>r. if P r then f r else r) rows"

text \<open>\<^verbatim>\<open>d.get(k, default)\<close> on a dictionary literal.\<close>

definition dict_get :: "('k \<times> 'v) list \<Rightarrow> 'k \<Rightarrow> 'v \<Rightarrow> 'v" where
  "dict_get d k dflt = (case map_of d k of Some v \<Rightarrow> v | None \<Rightarrow> dflt)"

text \<open>Python truth of an optional string: \<^verbatim>\<open>None\<close> and \<^verbatim>\<open>''\<close> are false.\<close>

definition truthy :: "string option \<Rightarrow> bool" where
  "truthy v = (case v of None \<Rightarrow> False | Some x \<Rightarrow> x \<noteq> [])"

definition py_or :: "string option \<Rightarrow> string option \<Rightarrow> string option" where
  "py_or a b = (if truthy a then a else b)"

definition startswith :: "string \<Rightarrow> string \<Rightarrow> bool" where
  "startswith s p = (take (length p) s = p)"

text \<open>The balance column of the first row with the given id, as \<^verbatim>\<open>SELECT balance\<close> reads it.\<close>

definition balance_of :: "db \<Rightarrow> string \<Rightarrow> rat" where
  "balance_of s wid = (case fetchone (\<lambda>w. wallet_id w = wid) (wallets s) of
                         Some w \<Rightarrow> balance w | None \<Rightarrow> 0)"

subsection \<open>customer\_send\_payment\<close>

text \<open>
  The JSON body and the \<^verbatim>\<open>Customer-Phone\<close> header of a request. A field is
  \<open>None\<close> when its key is absent. The amount is the value of
  \<^verbatim>\<open>float(data['amount'])\<close>; a body whose amount does not convert, or whose channel
  or recipient is not a string, ends in the \<^verbatim>\<open>except\<close> branch (HTTP 500, nothing
  committed) and is not a value of this type.
\<close>

record send_payment_data =
  sp_amount :: "rat option"
  sp_channel :: "string option"
  sp_recipient :: "string option"
  sp_customer_phone :: "string option"
  sp_wallet_id :: "string option"
  sp_header_customer_phone :: "string option"

record send_payment_response =
  resp_transaction_id :: string
  resp_amount :: rat
  resp_fee :: rat
  resp_fee_saved :: "rat option"
  resp_channel :: string
  resp_recipient :: string
  resp_recipient_type :: string
  resp_new_balance :: rat

definition fee_structure :: "(string \<times> rat) list" where
  "fee_structure =
     [(''phantom_wallet'', 0), (''orange_money'', 5 / 2), (''myzaka'', 3),
      (''ussd'', 3 / 2), (''qr_code'', 0)]"

text \<open>\<^verbatim>\<open>fee = fee_structure.get(channel, 2.50)\<close>\<close>

definition channel_fee :: "string \<Rightarrow> rat" where
  "channel_fee ch = dict_get fee_structure ch (5 / 2)"

definition traditional_fees :: "(string \<times> rat) list" where
  "traditional_fees = [(''orange_money'', 92), (''myzaka'', 99)]"

text \<open>
  The recipient step of \<^verbatim>\<open>customer_send_payment\<close> (the block under
  \<^verbatim>\<open># Handle recipient\<close>): it runs after the sender's debit, on the same connection,
  and yields \<^verbatim>\<open>recipient_type\<close>.
\<close>

definition handle_recipient :: "nat \<Rightarrow> string \<Rightarrow> string \<Rightarrow> rat \<Rightarrow> db \<Rightarrow> string \<times> db" where
  "handle_recipient now ch recipient amt s =
     (if ch = ''phantom_wallet'' \<and> recipient \<noteq> [] then
        if startswith recipient ''pw_bw_'' then
          (case fetchone (\<lambda>w. wallet_id w = recipient \<and> status w = ''active'') (wallets s) of
             Some recipient_wallet \<Rightarrow>
               (''customer_wallet'',
                s\<lparr>wallets := update_where (\<lambda>w. wallet_id w = recipient)
                     (\<lambda>w. w\<lparr>balance := balance w + amt, last_activity := now\<rparr>) (wallets s)\<rparr>)
           | None \<Rightarrow> (''external'', s))
        else if startswith recipient ''merchant_'' then
          (case fetchone (\<lambda>m. merchant_id m = recipient \<and> merchant_status m = ''active'')
                  (merchants s) of
             Some recipient_merchant \<Rightarrow>
               (''merchant'',
                s\<lparr>merchants := update_where (\<lambda>m. merchant_id m = recipient)
                     (\<lambda>m. m\<lparr>merchant_balance := merchant_balance m + amt\<rparr>) (merchants s)\<rparr>)
           | None \<Rightarrow> (''external'', s))
        else (''external'', s)
      else (''external'', s))"

text \<open>
  The part of \<^verbatim>\<open>customer_send_payment\<close> after the sender's row \<open>w\<close> has been
  fetched: fee lookup, balance check, debit, recipient step, the one \<^verbatim>\<open>INSERT\<close> into
  \<^verbatim>\<open>transactions\<close> and the commit. \<^verbatim>\<open>transaction_id\<close> is the primary key of
  \<^verbatim>\<open>transactions\<close>: inserting a key already present raises, and nothing is committed.
\<close>

definition send_from_wallet ::
  "nat \<Rightarrow> string \<Rightarrow> wallet \<Rightarrow> rat \<Rightarrow> string \<Rightarrow> string \<Rightarrow> db \<Rightarrow> (error + send_payment_response) \<times> db" where
  "send_from_wallet now tid w amt ch recipient s =
     (let wid = wallet_id w;
          bal = balance w;
          fee_v = channel_fee ch;
          total_amount = amt + fee_v
      in if bal < total_amount then (Inl (InsufficientBalance bal total_amount), s)
         else
           let s1 = s\<lparr>wallets := update_where (\<lambda>x. wallet_id x = wid)
                      (\<lambda>x. x\<lparr>balance := balance x - total_amount, last_activity := now\<rparr>)
                      (wallets s)\<rparr>;
               (recipient_type, s2) = handle_recipient now ch recipient amt s1;
               row = \<lparr>transaction_id = tid, txn_wallet_id = wid, from_wallet = Some wid,
                      to_wallet = (if ch = ''phantom_wallet'' then Some recipient else None),
                      amount = amt, fee = fee_v, channel = ch,
                      description = ''Payment to '' @ recipient @ '' via '' @ ch,
                      external_reference = None, txn_created_at = now,
                      txn_status = ''completed''\<rparr>;
               fee_saved = dict_get traditional_fees ch 0 - fee_v
           in if tid \<in> set (map transaction_id (transactions s2)) then (Inl InternalError, s)
              else
                (Inr \<lparr>resp_transaction_id = tid, resp_amount = amt, resp_fee = fee_v,
                      resp_fee_saved = (if fee_saved > 0 then Some fee_saved else None),
                      resp_channel = ch, resp_recipient = recipient,
                      resp_recipient_type = recipient_type,
                      resp_new_balance = bal - total_amount\<rparr>,
                 s2\<lparr>transactions := transactions s2 @ [row]\<rparr>))"

text \<open>
  The handler. The user dictionary has no \<^verbatim>\<open>customer_phone\<close> and no \<^verbatim>\<open>wallet_id\<close>
  key, so \<^verbatim>\<open>user.get('customer_phone')\<close> and \<^verbatim>\<open>user.get('wallet_id')\<close> are
  \<^verbatim>\<open>None\<close>. \<open>request_phone\<close> is the handler's \<^verbatim>\<open>customer_phone\<close> and
  \<open>sender_wallet\<close> the row its \<^verbatim>\<open># Get customer wallet\<close> block fetches. The
  notifications written after the commit go to another table on another connection and
  are not part of the ledger state.
\<close>

definition request_phone :: "send_payment_data \<Rightarrow> string option" where
  "request_phone data =
     py_or (sp_customer_phone data) (py_or None (sp_header_customer_phone data))"

definition sender_wallet :: "send_payment_data \<Rightarrow> db \<Rightarrow> wallet option" where
  "sender_wallet data s =
     (let wid = py_or (sp_wallet_id data) None
      in if truthy wid then
           fetchone (\<lambda>w. Some (wallet_id w) = wid \<and> status w = ''active'') (wallets s)
         else
           fetchone (\<lambda>w. Some (customer_phone w) = request_phone data \<and> status w = ''active'')
             (wallets s))"

definition customer_send_payment ::
  "nat \<Rightarrow> string \<Rightarrow> user option \<Rightarrow> send_payment_data \<Rightarrow> db \<Rightarrow> (error + send_payment_response) \<times> db" where
  "customer_send_payment now tid usr data s =
     (case usr of
        None \<Rightarrow> (Inl CustomerAuthRequired, s)
      | Some u \<Rightarrow>
          if user_type u \<noteq> ''customer'' then (Inl CustomerAuthRequired, s)
          else
            (case sp_amount data of
               None \<Rightarrow> (Inl (MissingField ''amount''), s)
             | Some amt \<Rightarrow>
            (case sp_channel data of
               None \<Rightarrow> (Inl (MissingField ''channel''), s)
             | Some ch \<Rightarrow>
            (case sp_recipient data of
               None \<Rightarrow> (Inl (MissingField ''recipient''), s)
             | Some recipient \<Rightarrow>
                 if \<not> truthy (request_phone data) then (Inl CustomerPhoneRequired, s)
                 else
                   (case sender_wallet data s of
                      None \<Rightarrow> (Inl WalletNotFoundOrInactive, s)
                    | Some w \<Rightarrow> send_from_wallet now tid w amt ch recipient s)))))"

subsection \<open>merchant\_topup\_wallet\<close>

record topup_data =
  tu_amount :: "rat option"
  tu_description :: "string option"

record topup_response =
  tur_transaction_id :: string
  tur_wallet_id :: string
  tur_customer_name :: string
  tur_amount_added :: rat
  tur_new_balance :: rat
  tur_previous_balance :: rat

definition merchant_topup_wallet ::
  "nat \<Rightarrow> string \<Rightarrow> user option \<Rightarrow> string \<Rightarrow> topup_data \<Rightarrow> db \<Rightarrow> (error + topup_response) \<times> db" where
  "merchant_topup_wallet now tid usr wid data s =
     (case usr of
        None \<Rightarrow> (Inl MerchantAuthRequired, s)
      | Some u \<Rightarrow>
          if user_type u \<noteq> ''merchant'' then (Inl MerchantAuthRequired, s)
          else
            (case tu_amount data of
               None \<Rightarrow> (Inl (MissingField ''amount''), s)
             | Some amt \<Rightarrow>
            (case tu_description data of
               None \<Rightarrow> (Inl (MissingField ''description''), s)
             | Some descr \<Rightarrow>
                 if amt \<le> 0 then (Inl AmountNotPositive, s)
                 else
                   (case fetchone (\<lambda>w. wallet_id w = wid) (wallets s) of
                      None \<Rightarrow> (Inl WalletNotFound, s)
                    | Some w \<Rightarrow>
                        if business_id w \<noteq> user_id u then (Inl UnauthorizedOtherMerchant, s)
                        else
                          let s1 = s\<lparr>wallets := update_where (\<lambda>x. wallet_id x = wid)
                                     (\<lambda>x. x\<lparr>balance := balance x + amt, last_activity := now\<rparr>)
                                     (wallets s)\<rparr>;
                              row = \<lparr>transaction_id = tid, txn_wallet_id = wid,
                                     from_wallet = None, to_wallet = Some wid,
                                     amount = amt, fee = 0, channel = ''merchant_topup'',
                                     description = descr, external_reference = None,
                                     txn_created_at = now, txn_status = ''completed''\<rparr>
                          in if tid \<in> set (map transaction_id (transactions s1))
                             then (Inl InternalError, s)
                             else
                               let s2 = s1\<lparr>transactions := transactions s1 @ [row]\<rparr>
                               in (Inr \<lparr>tur_transaction_id = tid, tur_wallet_id = wid,
                                        tur_customer_name = customer_name w,
                                        tur_amount_added = amt,
                                        tur_new_balance = balance_of s2 wid,
                                        tur_previous_balance = balance w\<rparr>, s2)))))"

subsection \<open>customer\_topup\<close>

record customer_topup_data =
  ct_amount :: "rat option"
  ct_source :: "string option"
  ct_reference :: "string option"
  ct_customer_phone :: "string option"

record customer_topup_response =
  ctr_transaction_id :: string
  ctr_amount :: rat
  ctr_source :: string
  ctr_old_balance :: rat
  ctr_new_balance :: rat
  ctr_reference :: string

text \<open>
  \<^verbatim>\<open>customer_phone = user.get('customer_phone') or data.get('customer_phone')\<close>; a
  \<^verbatim>\<open>None\<close> bound to \<^verbatim>\<open>WHERE customer_phone = ?\<close> matches no row.
\<close>

definition customer_topup ::
  "nat \<Rightarrow> string \<Rightarrow> user option \<Rightarrow> customer_topup_data \<Rightarrow> db \<Rightarrow> (error + customer_topup_response) \<times> db" where
  "customer_topup now tid usr data s =
     (case usr of
        None \<Rightarrow> (Inl CustomerAuthRequired, s)
      | Some u \<Rightarrow>
          if user_type u \<noteq> ''customer'' then (Inl CustomerAuthRequired, s)
          else
            (case ct_amount data of
               None \<Rightarrow> (Inl (MissingField ''amount''), s)
             | Some amt \<Rightarrow>
            (case ct_source data of
               None \<Rightarrow> (Inl (MissingField ''source''), s)
             | Some source \<Rightarrow>
            (case ct_reference data of
               None \<Rightarrow> (Inl (MissingField ''reference''), s)
             | Some reference \<Rightarrow>
                 (case (case py_or None (ct_customer_phone data) of
                          None \<Rightarrow> None
                        | Some p \<Rightarrow> fetchone (\<lambda>w. customer_phone w = p) (wallets s)) of
                    None \<Rightarrow> (Inl CustomerWalletNotFound, s)
                  | Some w \<Rightarrow>
                      let wid = wallet_id w;
                          old_balance = balance w;
                          s1 = s\<lparr>wallets := update_where (\<lambda>x. wallet_id x = wid)
                                 (\<lambda>x. x\<lparr>balance := balance x + amt, last_activity := now\<rparr>)
                                 (wallets s)\<rparr>;
                          row = \<lparr>transaction_id = tid, txn_wallet_id = wid,
                                 from_wallet = None, to_wallet = Some wid,
                                 amount = amt, fee = 0, channel = source,
                                 description = ''Top-up from '' @ source,
                                 external_reference = Some reference,
                                 txn_created_at = now, txn_status = ''completed''\<rparr>
                      in if tid \<in> set (map transaction_id (transactions s1))
                         then (Inl InternalError, s)
                         else
                           (Inr \<lparr>ctr_transaction_id = tid, ctr_amount = amt,
                                 ctr_source = source, ctr_old_balance = old_balance,
                                 ctr_new_balance = old_balance + amt,
                                 ctr_reference = reference\<rparr>,
                            s1\<lparr>transactions := transactions s1 @ [row]\<rparr>))))))"

subsection \<open>create\_wallet, deactivate\_wallet, activate\_wallet\<close>

record create_wallet_data =
  cw_customer_phone :: "string option"
  cw_customer_name :: "string option"
  cw_customer_email :: "string option"
  cw_initial_balance :: "rat option"
  cw_daily_limit :: "rat option"

text \<open>What \<^verbatim>\<open>create_wallet\<close> draws from \<^verbatim>\<open>uuid\<close> and \<^verbatim>\<open>random\<close>.\<close>

record generated =
  gen_wallet_id :: string
  gen_ussd_code :: string
  gen_customer_pin :: string

text \<open>
  The duplicate check selects on \<^verbatim>\<open>customer_phone\<close> alone. \<^verbatim>\<open>wallet_id\<close> is the
  primary key of \<^verbatim>\<open>wallets\<close> and \<^verbatim>\<open>ussd_code\<close> is \<^verbatim>\<open>UNIQUE\<close>: an \<^verbatim>\<open>INSERT\<close>
  that repeats either raises and nothing is committed. The answer is the inserted row.
\<close>

definition create_wallet ::
  "nat \<Rightarrow> generated \<Rightarrow> user option \<Rightarrow> create_wallet_data \<Rightarrow> db \<Rightarrow> (error + wallet) \<times> db" where
  "create_wallet now gen usr data s =
     (case usr of
        None \<Rightarrow> (Inl MerchantAuthRequired, s)
      | Some u \<Rightarrow>
          if user_type u \<noteq> ''merchant'' then (Inl MerchantAuthRequired, s)
          else
            (case cw_customer_phone data of
               None \<Rightarrow> (Inl (MissingField ''customer_phone''), s)
             | Some phone \<Rightarrow>
            (case cw_customer_name data of
               None \<Rightarrow> (Inl (MissingField ''customer_name''), s)
             | Some name \<Rightarrow>
                 (case fetchone (\<lambda>w. customer_phone w = phone) (wallets s) of
                    Some existing \<Rightarrow> (Inl CustomerAlreadyHasWallet, s)
                  | None \<Rightarrow>
                      let row = \<lparr>wallet_id = gen_wallet_id gen, business_id = user_id u,
                                 customer_name = name, customer_phone = phone,
                                 customer_email = cw_customer_email data,
                                 balance = (case cw_initial_balance data of
                                              None \<Rightarrow> 0 | Some b \<Rightarrow> b),
                                 daily_limit = (case cw_daily_limit data of
                                                  None \<Rightarrow> 5000 | Some l \<Rightarrow> l),
                                 ussd_code = gen_ussd_code gen,
                                 customer_pin = gen_customer_pin gen,
                                 status = ''active'', created_at = now,
                                 last_activity = now\<rparr>
                      in if gen_wallet_id gen \<in> set (map wallet_id (wallets s))
                            \<or> gen_ussd_code gen \<in> set (map ussd_code (wallets s))
                         then (Inl InternalError, s)
                         else (Inr row, s\<lparr>wallets := wallets s @ [row]\<rparr>)))))"

text \<open>
  \<^verbatim>\<open>deactivate_wallet\<close> and \<^verbatim>\<open>activate_wallet\<close> differ in the status they write.
\<close>

definition set_wallet_status ::
  "string \<Rightarrow> user option \<Rightarrow> string \<Rightarrow> db \<Rightarrow> (error + unit) \<times> db" where
  "set_wallet_status new_status usr wid s =
     (case usr of
        None \<Rightarrow> (Inl MerchantAuthRequired, s)
      | Some u \<Rightarrow>
          if user_type u \<noteq> ''merchant'' then (Inl MerchantAuthRequired, s)
          else
            (case fetchone (\<lambda>w. wallet_id w = wid) (wallets s) of
               None \<Rightarrow> (Inl WalletNotFound, s)
             | Some w \<Rightarrow>
                 if business_id w \<noteq> user_id u then (Inl UnauthorizedOtherMerchant, s)
                 else
                   (Inr (),
                    s\<lparr>wallets := update_where (\<lambda>x. wallet_id x = wid)
                         (\<lambda>x. x\<lparr>status := new_status\<rparr>) (wallets s)\<rparr>)))"

definition deactivate_wallet :: "user option \<Rightarrow> string \<Rightarrow> db \<Rightarrow> (error + unit) \<times> db" where
  "deactivate_wallet usr wid s = set_wallet_status ''inactive'' usr wid s"

definition activate_wallet :: "user option \<Rightarrow> string \<Rightarrow> db \<Rightarrow> (error + unit) \<times> db" where
  "activate_wallet usr wid s = set_wallet_status ''active'' usr wid s"

subsection \<open>Reading an answer\<close>

definition succeeded :: "(error + 'a) \<times> db \<Rightarrow> bool" where
  "succeeded r = (case fst r of Inr _ \<Rightarrow> True | Inl _ \<Rightarrow> False)"

subsection \<open>A small database\<close>

text \<open>
  Two merchants and three wallets: A and C belong to \<^verbatim>\<open>merchant_001\<close>, B to
  \<^verbatim>\<open>merchant_002\<close>; C has been deactivated.
\<close>

definition wallet_A :: wallet where
  "wallet_A = \<lparr>wallet_id = ''pw_bw_a'', business_id = ''merchant_001'',
               customer_name = ''Thabo'', customer_phone = ''+26771'',
               customer_email = None, balance = 500, daily_limit = 5000,
               ussd_code = ''*167*A#'', customer_pin = ''1234'', status = ''active'',
               created_at = 0, last_activity = 0\<rparr>"

definition wallet_B :: wallet where
  "wallet_B = \<lparr>wallet_id = ''pw_bw_b'', business_id = ''merchant_002'',
               customer_name = ''Neo'', customer_phone = ''+26772'',
               customer_email = None, balance = 0, daily_limit = 5000,
               ussd_code = ''*167*B#'', customer_pin = ''1234'', status = ''active'',
               created_at = 0, last_activity = 0\<rparr>"

definition wallet_C :: wallet where
  "wallet_C = \<lparr>wallet_id = ''pw_bw_c'', business_id = ''merchant_001'',
               customer_name = ''Kabo'', customer_phone = ''+26773'',
               customer_email = None, balance = 0, daily_limit = 5000,
               ussd_code = ''*167*C#'', customer_pin = ''1234'', status = ''inactive'',
               created_at = 0, last_activity = 0\<rparr>"

definition example_db :: db where
  "example_db =
     \<lparr>wallets = [wallet_A, wallet_B, wallet_C],
      merchants = [\<lparr>merchant_id = ''merchant_001'', business_name = ''Kgalagadi'',
                     merchant_balance = 0, merchant_status = ''active''\<rparr>,
                   \<lparr>merchant_id = ''merchant_002'', business_name = ''Motswana'',
                     merchant_balance = 0, merchant_status = ''active''\<rparr>],
      transactions = []\<rparr>"

definition customer :: "user option" where
  "customer = Some \<lparr>user_id = ''anyone'', user_type = ''customer''\<rparr>"

definition merchant_001 :: "user option" where
  "merchant_001 = Some \<lparr>user_id = ''merchant_001'', user_type = ''merchant''\<rparr>"

text \<open>A send request that names the sending wallet, as the Streamlit client builds it.\<close>

definition send_request :: "string \<Rightarrow> rat \<Rightarrow> string \<Rightarrow> string \<Rightarrow> send_payment_data" where
  "send_request wid amt ch recipient =
     \<lparr>sp_amount = Some amt, sp_channel = Some ch, sp_recipient = Some recipient,
      sp_customer_phone = Some ''+26771'', sp_wallet_id = Some wid,
      sp_header_customer_phone = None\<rparr>"

subsection \<open>Vocabulary of the statements\<close>

text \<open>
  The condition under which the recipient step of \<^verbatim>\<open>customer_send_payment\<close> credits a
  wallet: the channel is \<^verbatim>\<open>phantom_wallet\<close>, the recipient is a non-empty string that
  starts with \<^verbatim>\<open>pw_bw_\<close>, and an active wallet has that id.
\<close>

definition resolves_to_wallet :: "string \<Rightarrow> string \<Rightarrow> db \<Rightarrow> bool" where
  "resolves_to_wallet ch recipient s =
     (ch = ''phantom_wallet'' \<and> recipient \<noteq> [] \<and> startswith recipient ''pw_bw_''
      \<and> fetchone (\<lambda>w. wallet_id w = recipient \<and> status w = ''active'') (wallets s) \<noteq> None)"

text \<open>The row \<^verbatim>\<open>customer_send_payment\<close> inserts into \<^verbatim>\<open>transactions\<close>.\<close>

definition send_row :: "nat \<Rightarrow> string \<Rightarrow> string \<Rightarrow> rat \<Rightarrow> string \<Rightarrow> string \<Rightarrow> txn" where
  "send_row now tid wid amt ch recipient =
     \<lparr>transaction_id = tid, txn_wallet_id = wid, from_wallet = Some wid,
      to_wallet = (if ch = ''phantom_wallet'' then Some recipient else None),
      amount = amt, fee = channel_fee ch, channel = ch,
      description = ''Payment to '' @ recipient @ '' via '' @ ch,
      external_reference = None, txn_created_at = now, txn_status = ''completed''\<rparr>"

section \<open>Binary64 numbers\<close>

text \<open>
  A Python \<^verbatim>\<open>float\<close> and an SQLite \<^verbatim>\<open>REAL\<close> are IEEE-754 binary64 numbers.
  \<open>Finite x\<close> is the double whose value is the rational \<open>x\<close>; the two zeros are not
  told apart (they compare equal, and no handler divides). \<open>round64\<close> rounds a rational
  to the nearest binary64 value (53 significant bits, least exponent \<open>- 1074\<close>), ties to
  the even significand; \<open>fround\<close> is \<open>round64\<close> with overflow to an infinity, which is
  how \<^verbatim>\<open>float('0.53')\<close> reads a decimal and how every sum is delivered.
\<close>

datatype f64 = Finite rat | PosInf | NegInf | NaN

definition round_half_even :: "rat \<Rightarrow> int" where
  "round_half_even y =
     (let f = \<lfloor>y\<rfloor>; d = y - of_int f
      in if d < 1 / 2 then f else if 1 / 2 < d then f + 1 else if even f then f else f + 1)"

text \<open>The \<open>k\<close> with \<open>2 ^ k \<le> \<bar>x\<bar> < 2 ^ (k + 1)\<close>, for \<open>x \<noteq> 0\<close>.\<close>

definition binade :: "rat \<Rightarrow> int" where
  "binade x =
     (let k = bitlen \<bar>fst (quotient_of x)\<bar> - bitlen (snd (quotient_of x))
      in if 2 powi k \<le> \<bar>x\<bar> then k else k - 1)"

definition round64 :: "rat \<Rightarrow> rat" where
  "round64 x =
     (if x = 0 then 0
      else let e = max (binade x - 52) (- 1074)
           in of_int (round_half_even (x / 2 powi e)) * 2 powi e)"

definition fround :: "rat \<Rightarrow> f64" where
  "fround x =
     (let v = round64 x
      in if 2 ^ 1024 \<le> v then PosInf else if v \<le> - (2 ^ 1024) then NegInf else Finite v)"

fun fneg :: "f64 \<Rightarrow> f64" where
  "fneg (Finite a) = Finite (- a)"
| "fneg PosInf = NegInf"
| "fneg NegInf = PosInf"
| "fneg NaN = NaN"

text \<open>Python's \<^verbatim>\<open>x + y\<close>, \<^verbatim>\<open>x - y\<close> and \<^verbatim>\<open>x < y\<close> on floats.\<close>

fun fadd :: "f64 \<Rightarrow> f64 \<Rightarrow> f64" where
  "fadd NaN y = NaN"
| "fadd x NaN = NaN"
| "fadd PosInf NegInf = NaN"
| "fadd NegInf PosInf = NaN"
| "fadd PosInf y = PosInf"
| "fadd x PosInf = PosInf"
| "fadd NegInf y = NegInf"
| "fadd x NegInf = NegInf"
| "fadd (Finite a) (Finite b) = fround (a + b)"

definition fsub :: "f64 \<Rightarrow> f64 \<Rightarrow> f64" where
  "fsub x y = fadd x (fneg y)"

fun flt :: "f64 \<Rightarrow> f64 \<Rightarrow> bool" where
  "flt NaN y = False"
| "flt x NaN = False"
| "flt (Finite a) (Finite b) = (a < b)"
| "flt x NegInf = False"
| "flt PosInf y = False"
| "flt NegInf y = True"
| "flt x PosInf = True"

text \<open>
  An SQLite value of a \<^verbatim>\<open>REAL\<close> column is a double or \<^verbatim>\<open>NULL\<close> (\<open>None\<close>). SQLite
  has no NaN: a NaN that is bound as a parameter or that an expression yields becomes
  \<^verbatim>\<open>NULL\<close>, and arithmetic on \<^verbatim>\<open>NULL\<close> is \<^verbatim>\<open>NULL\<close>.
\<close>

definition sql_real :: "f64 \<Rightarrow> f64 option" where
  "sql_real x = (if x = NaN then None else Some x)"

text \<open>\<^verbatim>\<open>column + ?\<close> and \<^verbatim>\<open>column - ?\<close> with a Python float bound to \<^verbatim>\<open>?\<close>.\<close>

definition sql_add :: "f64 option \<Rightarrow> f64 \<Rightarrow> f64 option" where
  "sql_add column x =
     (case column of
        None \<Rightarrow> None
      | Some c \<Rightarrow> (case sql_real x of None \<Rightarrow> None | Some v \<Rightarrow> sql_real (fadd c v)))"

definition sql_sub :: "f64 option \<Rightarrow> f64 \<Rightarrow> f64 option" where
  "sql_sub column x =
     (case column of
        None \<Rightarrow> None
      | Some c \<Rightarrow> (case sql_real x of None \<Rightarrow> None | Some v \<Rightarrow> sql_real (fsub c v)))"

section \<open>customer\_send\_payment on binary64 amounts\<close>

text \<open>
  \<^verbatim>\<open>customer_send_payment\<close> once more, now with the numbers as the interpreter and
  SQLite hold them: the amount is the double \<^verbatim>\<open>float(data['amount'])\<close> (NaN and the
  infinities included, which \<^verbatim>\<open>float\<close> and the JSON reader accept), the columns
  \<^verbatim>\<open>wallets.balance\<close> and \<^verbatim>\<open>merchants.balance\<close> are \<^verbatim>\<open>REAL\<close> and may be
  \<^verbatim>\<open>NULL\<close>, and \<^verbatim>\<open>transactions.amount\<close> is \<^verbatim>\<open>REAL NOT NULL\<close>. The rows keep the
  columns this handler reads for the ledger or writes; the request, the user, the
  timestamps and the transaction id are as in the section above.
\<close>

record wallet64 =
  w64_wallet_id :: string
  w64_customer_phone :: string
  w64_balance :: "f64 option"
  w64_status :: string
  w64_last_activity :: nat

record merchant64 =
  m64_id :: string
  m64_balance :: "f64 option"
  m64_status :: string

record txn64 =
  t64_transaction_id :: string
  t64_wallet_id :: string
  t64_from_wallet :: "string option"
  t64_to_wallet :: "string option"
  t64_amount :: f64
  t64_fee :: f64
  t64_channel :: string
  t64_description :: string
  t64_created_at :: nat
  t64_status :: string

record db64 =
  wallets64 :: "wallet64 list"
  merchants64 :: "merchant64 list"
  transactions64 :: "txn64 list"

record send_payment_data64 =
  sp64_amount :: "f64 option"
  sp64_channel :: "string option"
  sp64_recipient :: "string option"
  sp64_customer_phone :: "string option"
  sp64_wallet_id :: "string option"
  sp64_header_customer_phone :: "string option"

record send_payment_response64 =
  resp64_transaction_id :: string
  resp64_amount :: f64
  resp64_fee :: f64
  resp64_fee_saved :: "rat option"
  resp64_channel :: string
  resp64_recipient :: string
  resp64_recipient_type :: string
  resp64_new_balance :: f64

text \<open>
  The early returns of the handler. \<open>InsufficientBalance64\<close> carries the two numbers of
  the message, \<^verbatim>\<open>Available\<close> and \<^verbatim>\<open>Required\<close>; \<open>InternalError64\<close> is the
  \<^verbatim>\<open>except\<close> branch (HTTP 500, nothing committed).
\<close>

datatype error64 =
    CustomerAuthRequired64
  | MissingField64 string
  | CustomerPhoneRequired64
  | WalletNotFoundOrInactive64
  | InsufficientBalance64 f64 f64
  | InternalError64

definition handle_recipient64 :: "nat \<Rightarrow> string \<Rightarrow> string \<Rightarrow> f64 \<Rightarrow> db64 \<Rightarrow> string \<times> db64" where
  "handle_recipient64 now ch recipient amt s =
     (if ch = ''phantom_wallet'' \<and> recipient \<noteq> [] then
        if startswith recipient ''pw_bw_'' then
          (case fetchone (\<lambda>w. w64_wallet_id w = recipient \<and> w64_status w = ''active'')
                  (wallets64 s) of
             Some recipient_wallet \<Rightarrow>
               (''customer_wallet'',
                s\<lparr>wallets64 := update_where (\<lambda>w. w64_wallet_id w = recipient)
                     (\<lambda>w. w\<lparr>w64_balance := sql_add (w64_balance w) amt,
                            w64_last_activity := now\<rparr>) (wallets64 s)\<rparr>)
           | None \<Rightarrow> (''external'', s))
        else if startswith recipient ''merchant_'' then
          (case fetchone (\<lambda>m. m64_id m = recipient \<and> m64_status m = ''active'')
                  (merchants64 s) of
             Some recipient_merchant \<Rightarrow>
               (''merchant'',
                s\<lparr>merchants64 := update_where (\<lambda>m. m64_id m = recipient)
                     (\<lambda>m. m\<lparr>m64_balance := sql_add (m64_balance m) amt\<rparr>) (merchants64 s)\<rparr>)
           | None \<Rightarrow> (''external'', s))
        else (''external'', s)
      else (''external'', s))"

text \<open>
  From the fetched sender row \<open>w\<close> on. \<^verbatim>\<open>total_amount = amount + fee\<close> is a float sum,
  and \<^verbatim>\<open>balance < total_amount\<close> compares two floats; with a \<^verbatim>\<open>NULL\<close> balance the
  comparison raises \<^verbatim>\<open>TypeError\<close>. The debit and the credit are computed by SQLite.
  The \<^verbatim>\<open>INSERT\<close> fails when the amount is NaN (the column is \<^verbatim>\<open>NOT NULL\<close>) or the
  transaction id is already a key; then nothing is committed.
\<close>

definition send_from_wallet64 ::
  "nat \<Rightarrow> string \<Rightarrow> wallet64 \<Rightarrow> f64 \<Rightarrow> string \<Rightarrow> string \<Rightarrow> db64
     \<Rightarrow> (error64 + send_payment_response64) \<times> db64" where
  "send_from_wallet64 now tid w amt ch recipient s =
     (let wid = w64_wallet_id w;
          fee_v = Finite (channel_fee ch);
          total_amount = fadd amt fee_v
      in case w64_balance w of
           None \<Rightarrow> (Inl InternalError64, s)
         | Some bal \<Rightarrow>
             if flt bal total_amount then (Inl (InsufficientBalance64 bal total_amount), s)
             else
               let s1 = s\<lparr>wallets64 := update_where (\<lambda>x. w64_wallet_id x = wid)
                          (\<lambda>x. x\<lparr>w64_balance := sql_sub (w64_balance x) total_amount,
                                 w64_last_activity := now\<rparr>) (wallets64 s)\<rparr>;
                   (recipient_type, s2) = handle_recipient64 now ch recipient amt s1;
                   row = \<lparr>t64_transaction_id = tid, t64_wallet_id = wid,
                          t64_from_wallet = Some wid,
                          t64_to_wallet = (if ch = ''phantom_wallet'' then Some recipient else None),
                          t64_amount = amt, t64_fee = fee_v, t64_channel = ch,
                          t64_description = ''Payment to '' @ recipient @ '' via '' @ ch,
                          t64_created_at = now, t64_status = ''completed''\<rparr>;
                   fee_saved = dict_get traditional_fees ch 0 - channel_fee ch
               in if sql_real amt = None
                     \<or> tid \<in> set (map t64_transaction_id (transactions64 s2))
                  then (Inl InternalError64, s)
                  else
                    (Inr \<lparr>resp64_transaction_id = tid, resp64_amount = amt,
                          resp64_fee = fee_v,
                          resp64_fee_saved = (if fee_saved > 0 then Some fee_saved else None),
                          resp64_channel = ch, resp64_recipient = recipient,
                          resp64_recipient_type = recipient_type,
                          resp64_new_balance = fsub bal total_amount\<rparr>,
                     s2\<lparr>transactions64 := transactions64 s2 @ [row]\<rparr>))"

definition request_phone64 :: "send_payment_data64 \<Rightarrow> string option" where
  "request_phone64 data =
     py_or (sp64_customer_phone data) (py_or None (sp64_header_customer_phone data))"

definition sender_wallet64 :: "send_payment_data64 \<Rightarrow> db64 \<Rightarrow> wallet64 option" where
  "sender_wallet64 data s =
     (let wid = py_or (sp64_wallet_id data) None
      in if truthy wid then
           fetchone (\<lambda>w. Some (w64_wallet_id w) = wid \<and> w64_status w = ''active'') (wallets64 s)
         else
           fetchone (\<lambda>w. Some (w64_customer_phone w) = request_phone64 data
                          \<and> w64_status w = ''active'') (wallets64 s))"

definition customer_send_payment64 ::
  "nat \<Rightarrow> string \<Rightarrow> user option \<Rightarrow> send_payment_data64 \<Rightarrow> db64
     \<Rightarrow> (error64 + send_payment_response64) \<times> db64" where
  "customer_send_payment64 now tid usr data s =
     (case usr of
        None \<Rightarrow> (Inl CustomerAuthRequired64, s)
      | Some u \<Rightarrow>
          if user_type u \<noteq> ''customer'' then (Inl CustomerAuthRequired64, s)
          else
            (case sp64_amount data of
               None \<Rightarrow> (Inl (MissingField64 ''amount''), s)
             | Some amt \<Rightarrow>
            (case sp64_channel data of
               None \<Rightarrow> (Inl (MissingField64 ''channel''), s)
             | Some ch \<Rightarrow>
            (case sp64_recipient data of
               None \<Rightarrow> (Inl (MissingField64 ''recipient''), s)
             | Some recipient \<Rightarrow>
                 if \<not> truthy (request_phone64 data) then (Inl CustomerPhoneRequired64, s)
                 else
                   (case sender_wallet64 data s of
                      None \<Rightarrow> (Inl WalletNotFoundOrInactive64, s)
                    | Some w \<Rightarrow> send_from_wallet64 now tid w amt ch recipient s)))))"

definition succeeded64 :: "(error64 + 'a) \<times> db64 \<Rightarrow> bool" where
  "succeeded64 r = (case fst r of Inr _ \<Rightarrow> True | Inl _ \<Rightarrow> False)"

text \<open>
  A database with one active wallet whose balance is the double nearest to the decimal
  \<open>b\<close>, and a request that names this wallet and carries the decimal amount \<open>a\<close>.
\<close>

definition decimal_db :: "rat \<Rightarrow> db64" where
  "decimal_db b =
     \<lparr>wallets64 = [\<lparr>w64_wallet_id = ''pw_bw_a'', w64_customer_phone = ''+26771'',
                     w64_balance = sql_real (fround b), w64_status = ''active'',
                     w64_last_activity = 0\<rparr>],
      merchants64 = [], transactions64 = []\<rparr>"

definition decimal_request :: "rat \<Rightarrow> string \<Rightarrow> string \<Rightarrow> send_payment_data64" where
  "decimal_request a ch recipient =
     \<lparr>sp64_amount = Some (fround a), sp64_channel = Some ch, sp64_recipient = Some recipient,
      sp64_customer_phone = Some ''+26771'', sp64_wallet_id = Some ''pw_bw_a'',
      sp64_header_customer_phone = None\<rparr>"

section \<open>The enterprise ledger of comprehensive\_phantom\_banking.py\<close>

text \<open>
  \<^verbatim>\<open>comprehensive_phantom_banking.py\<close> is a second implementation of the ledger, on
  SQLAlchemy models with enum-typed columns. It has the rolling-limit check
  (\<^verbatim>\<open>PhantomWallet.check_limits\<close>), the payment-acceptance path
  (\<^verbatim>\<open>PaymentProcessor.process_payment\<close>) and its own
  \<^verbatim>\<open>WalletService.create_wallet\<close>. The columns these three read or write are modelled;
  audit logs, API keys and the webhook thread are written after the commit and are left
  out.
\<close>

datatype TransactionType = CREDIT | DEBIT

datatype PaymentMethod = QR | USSD | EFT | MOBILE_MONEY | CARD

datatype TransactionStatus = PENDING | COMPLETED | FAILED | CANCELLED

datatype WalletStatus = ACTIVE | SUSPENDED | UPGRADED | CLOSED

datatype BusinessStatus =
  Business_PENDING | Business_APPROVED | Business_ACTIVE | Business_SUSPENDED

text \<open>
  A calendar date. SQLite compares the \<^verbatim>\<open>YYYY-MM-DD\<close> texts that
  \<^verbatim>\<open>db.func.date\<close> yields, which is the order on (year, month, day).
\<close>

datatype date = Date (date_year: nat) (date_month: nat) (date_day: nat)

fun date_le :: "date \<Rightarrow> date \<Rightarrow> bool" where
  "date_le (Date y1 m1 d1) (Date y2 m2 d2) =
     (y1 < y2 \<or> (y1 = y2 \<and> (m1 < m2 \<or> (m1 = m2 \<and> d1 \<le> d2))))"

text \<open>\<^verbatim>\<open>datetime.now().replace(day=1).date()\<close>\<close>

definition first_of_month :: "date \<Rightarrow> date" where
  "first_of_month d = Date (date_year d) (date_month d) 1"

record PhantomWallet =
  pw_id :: string
  pw_business_id :: string
  pw_customer_phone :: string
  pw_customer_name :: string
  pw_customer_email :: "string option"
  pw_balance :: rat
  pw_daily_limit :: rat
  pw_monthly_limit :: rat
  pw_status :: WalletStatus
  pw_ussd_code :: string

record Transaction =
  tx_id :: string
  tx_wallet_id :: string
  tx_amount :: rat
  tx_type :: TransactionType
  tx_method :: PaymentMethod
  tx_status :: TransactionStatus
  tx_description :: string
  tx_reference :: string
  tx_timestamp :: date

record Business =
  b_id :: string
  b_status :: BusinessStatus
  b_total_deposit_volume :: rat
  b_total_transaction_count :: nat

record store =
  phantom_wallets :: "PhantomWallet list"
  all_transactions :: "Transaction list"
  businesses :: "Business list"

text \<open>The business rules of \<^verbatim>\<open>class Config\<close>.\<close>

definition DEFAULT_DAILY_LIMIT :: rat where "DEFAULT_DAILY_LIMIT = 5000"

definition DEFAULT_MONTHLY_LIMIT :: rat where "DEFAULT_MONTHLY_LIMIT = 50000"

definition MIN_TRANSACTION_AMOUNT :: rat where "MIN_TRANSACTION_AMOUNT = 1"

definition MAX_TRANSACTION_AMOUNT :: rat where "MAX_TRANSACTION_AMOUNT = 100000"

subsection \<open>PhantomWallet.check\_limits\<close>

text \<open>
  The columns \<^verbatim>\<open>balance\<close>, \<^verbatim>\<open>daily_limit\<close>, \<^verbatim>\<open>monthly_limit\<close>,
  \<^verbatim>\<open>Transaction.amount\<close> and \<^verbatim>\<open>total_deposit_volume\<close> are \<^verbatim>\<open>Float\<close> columns: a
  rational in one of these fields is the value of the finite double stored there (a
  \<^verbatim>\<open>NULL\<close> or infinite limit is not a value of the field). The amount of a request is
  the double \<^verbatim>\<open>float(request.json['amount'])\<close>, which may be NaN or infinite.

  \<^verbatim>\<open>db.func.sum(Transaction.amount)\<close> is computed by SQLite, in binary64. In which
  order the engine visits the selected rows and how it rounds on the way is not the
  repository's code, so the aggregate is an argument: a function from the selected
  amounts to the value of \<^verbatim>\<open>SUM\<close>, \<^verbatim>\<open>NULL\<close> (\<open>None\<close>) when no row is selected.
  \<open>sequential_sum\<close> is the running binary64 sum in table order.
\<close>

type_synonym sql_sum = "rat list \<Rightarrow> f64 option"

definition sequential_sum :: sql_sum where
  "sequential_sum xs =
     (if xs = [] then None else sql_real (foldl fadd (Finite 0) (map Finite xs)))"

text \<open>\<^verbatim>\<open>.scalar() or 0\<close>: \<^verbatim>\<open>None\<close> and \<^verbatim>\<open>0.0\<close> become \<^verbatim>\<open>0\<close>.\<close>

definition scalar_or_0 :: "f64 option \<Rightarrow> f64" where
  "scalar_or_0 v = (case v of None \<Rightarrow> Finite 0 | Some x \<Rightarrow> x)"

text \<open>
  The two queries of \<^verbatim>\<open>check_limits\<close>. \<open>today\<close> is \<^verbatim>\<open>datetime.now().date()\<close>.
\<close>

definition daily_total :: "sql_sum \<Rightarrow> date \<Rightarrow> store \<Rightarrow> PhantomWallet \<Rightarrow> f64" where
  "daily_total agg today st w =
     scalar_or_0 (agg (map tx_amount
       (filter (\<lambda>t. tx_wallet_id t = pw_id w \<and> tx_timestamp t = today
                     \<and> tx_status t = COMPLETED) (all_transactions st))))"

definition monthly_total :: "sql_sum \<Rightarrow> date \<Rightarrow> store \<Rightarrow> PhantomWallet \<Rightarrow> f64" where
  "monthly_total agg today st w =
     scalar_or_0 (agg (map tx_amount
       (filter (\<lambda>t. tx_wallet_id t = pw_id w \<and> date_le (first_of_month today) (tx_timestamp t)
                     \<and> tx_status t = COMPLETED) (all_transactions st))))"

text \<open>
  \<^verbatim>\<open>check_limits\<close> answers \<^verbatim>\<open>(True, "OK")\<close> or \<^verbatim>\<open>False\<close> with a message that
  names the limit and the amount used. \<^verbatim>\<open>daily_total + amount > self.daily_limit\<close> is a
  float sum compared with a float.
\<close>

datatype limit_answer =
    Limit_OK
  | Daily_limit_exceeded rat f64
  | Monthly_limit_exceeded rat f64

definition check_limits ::
  "sql_sum \<Rightarrow> date \<Rightarrow> store \<Rightarrow> PhantomWallet \<Rightarrow> f64 \<Rightarrow> limit_answer" where
  "check_limits agg today st w amt =
     (if flt (Finite (pw_daily_limit w)) (fadd (daily_total agg today st w) amt)
      then Daily_limit_exceeded (pw_daily_limit w) (daily_total agg today st w)
      else if flt (Finite (pw_monthly_limit w)) (fadd (monthly_total agg today st w) amt)
      then Monthly_limit_exceeded (pw_monthly_limit w) (monthly_total agg today st w)
      else Limit_OK)"

subsection \<open>PaymentProcessor.process\_payment\<close>

record PaymentRequest =
  pr_wallet_id :: string
  pr_amount :: f64
  pr_method :: PaymentMethod
  pr_description :: string

text \<open>The \<^verbatim>\<open>code\<close> of a failure answer of \<^verbatim>\<open>process_payment\<close>.\<close>

datatype payment_error =
    WALLET_NOT_FOUND
  | WALLET_INACTIVE
  | AMOUNT_TOO_LOW
  | AMOUNT_TOO_HIGH
  | LIMIT_EXCEEDED limit_answer
  | PROCESSING_ERROR

record payment_answer =
  pa_transaction_id :: string
  pa_reference :: string
  pa_new_balance :: rat

text \<open>
  What one call reads from outside: the local date (\<^verbatim>\<open>datetime.now()\<close>, used by
  \<^verbatim>\<open>check_limits\<close>), the UTC date (\<^verbatim>\<open>datetime.utcnow\<close>, the default of
  \<^verbatim>\<open>Transaction.timestamp\<close>), the uuid and the generated reference of the new row.
\<close>

record payment_env =
  env_today :: date
  env_utc_today :: date
  env_transaction_id :: string
  env_reference :: string

text \<open>
  \<^verbatim>\<open>process_payment\<close>. The two amount checks are float comparisons, which a NaN
  passes; an infinite amount fails one of them. The transaction's id is the primary key
  and its reference is \<^verbatim>\<open>unique\<close>; \<^verbatim>\<open>wallet.business\<close> of a wallet whose business
  row is missing is \<^verbatim>\<open>None\<close>; a NaN amount is bound as \<^verbatim>\<open>NULL\<close> to the
  \<^verbatim>\<open>NOT NULL\<close> column \<^verbatim>\<open>amount\<close>; \<^verbatim>\<open>total_transaction_count\<close> is an SQLite
  \<^verbatim>\<open>INTEGER\<close>, to which no number above \<open>2 ^ 63 - 1\<close> can be bound. Each of these
  raises inside the \<^verbatim>\<open>try\<close>, and the handler rolls the session back and answers
  \<^verbatim>\<open>PROCESSING_ERROR\<close>. \<^verbatim>\<open>wallet.balance += amount\<close> and
  \<^verbatim>\<open>business.total_deposit_volume += amount\<close> are float sums; with an amount of at most
  100000 the sum of a finite double and the amount is finite, so it is \<open>round64\<close> of the
  exact sum. The row is inserted as \<^verbatim>\<open>PENDING\<close> and set to \<^verbatim>\<open>COMPLETED\<close> by the
  second commit of the same call.
\<close>

definition process_payment ::
  "sql_sum \<Rightarrow> payment_env \<Rightarrow> PaymentRequest \<Rightarrow> store
     \<Rightarrow> (payment_error + payment_answer) \<times> store" where
  "process_payment agg env req st =
     (case find (\<lambda>w. pw_id w = pr_wallet_id req) (phantom_wallets st) of
        None \<Rightarrow> (Inl WALLET_NOT_FOUND, st)
      | Some w \<Rightarrow>
          if pw_status w \<noteq> ACTIVE then (Inl WALLET_INACTIVE, st)
          else if flt (pr_amount req) (Finite MIN_TRANSACTION_AMOUNT)
          then (Inl AMOUNT_TOO_LOW, st)
          else if flt (Finite MAX_TRANSACTION_AMOUNT) (pr_amount req)
          then (Inl AMOUNT_TOO_HIGH, st)
          else
            (case check_limits agg (env_today env) st w (pr_amount req) of
               Daily_limit_exceeded l u \<Rightarrow> (Inl (LIMIT_EXCEEDED (Daily_limit_exceeded l u)), st)
             | Monthly_limit_exceeded l u \<Rightarrow>
                 (Inl (LIMIT_EXCEEDED (Monthly_limit_exceeded l u)), st)
             | Limit_OK \<Rightarrow>
                 (case find (\<lambda>b. b_id b = pw_business_id w) (businesses st) of
                    None \<Rightarrow> (Inl PROCESSING_ERROR, st)
                  | Some business \<Rightarrow>
                      (case pr_amount req of
                         Finite a \<Rightarrow>
                           if env_transaction_id env \<in> set (map tx_id (all_transactions st))
                              \<or> env_reference env \<in> set (map tx_reference (all_transactions st))
                              \<or> 2 ^ 63 - 1 < b_total_transaction_count business + 1
                           then (Inl PROCESSING_ERROR, st)
                           else
                             let row = \<lparr>tx_id = env_transaction_id env, tx_wallet_id = pw_id w,
                                        tx_amount = a, tx_type = CREDIT,
                                        tx_method = pr_method req, tx_status = COMPLETED,
                                        tx_description = pr_description req,
                                        tx_reference = env_reference env,
                                        tx_timestamp = env_utc_today env\<rparr>
                             in (Inr \<lparr>pa_transaction_id = env_transaction_id env,
                                      pa_reference = env_reference env,
                                      pa_new_balance = round64 (pw_balance w + a)\<rparr>,
                                 st\<lparr>phantom_wallets :=
                                      map (\<lambda>x. if pw_id x = pw_id w
                                                then x\<lparr>pw_balance := round64 (pw_balance x + a)\<rparr>
                                                else x) (phantom_wallets st),
                                    businesses :=
                                      map (\<lambda>b. if b_id b = b_id business
                                                then b\<lparr>b_total_deposit_volume :=
                                                         round64 (b_total_deposit_volume b + a),
                                                       b_total_transaction_count :=
                                                         b_total_transaction_count b + 1\<rparr>
                                                else b) (businesses st),
                                    all_transactions := all_transactions st @ [row]\<rparr>)
                       | PosInf \<Rightarrow> (Inl PROCESSING_ERROR, st)
                       | NegInf \<Rightarrow> (Inl PROCESSING_ERROR, st)
                       | NaN \<Rightarrow> (Inl PROCESSING_ERROR, st)))))"

subsection \<open>WalletService.create\_wallet\<close>

text \<open>
  \<^verbatim>\<open>PhantomWallet._generate_ussd_code\<close> draws codes until one is not in use. The draws
  are an argument; \<open>None\<close> says that every draw given was taken, where the source's
  \<^verbatim>\<open>while True\<close> is still running.
\<close>

fun generate_ussd_code :: "string list \<Rightarrow> store \<Rightarrow> string option" where
  "generate_ussd_code [] st = None"
| "generate_ussd_code (c # cs) st =
     (if c \<in> set (map pw_ussd_code (phantom_wallets st)) then generate_ussd_code cs st
      else Some c)"

record customer_data =
  cd_name :: "string option"
  cd_phone :: "string option"
  cd_email :: "string option"
  cd_daily_limit :: "rat option"

datatype create_error =
    Business_not_found_or_inactive
  | Already_has_wallet_with_business
  | Creation_error

text \<open>
  \<^verbatim>\<open>WalletService.create_wallet\<close>. A missing \<^verbatim>\<open>phone\<close> or \<^verbatim>\<open>name\<close> key raises
  \<^verbatim>\<open>KeyError\<close> and a repeated primary key raises on commit; both end in the
  \<^verbatim>\<open>except\<close> branch, which rolls back. The outer \<open>None\<close> is a call that does not
  return because the code generator does not.
\<close>

definition wallet_service_create_wallet ::
  "string \<Rightarrow> string list \<Rightarrow> string \<Rightarrow> customer_data \<Rightarrow> store
     \<Rightarrow> ((create_error + PhantomWallet) \<times> store) option" where
  "wallet_service_create_wallet new_id draws business_id_arg data st =
     (case find (\<lambda>b. b_id b = business_id_arg) (businesses st) of
        None \<Rightarrow> Some (Inl Business_not_found_or_inactive, st)
      | Some business \<Rightarrow>
          if b_status business \<noteq> Business_ACTIVE
          then Some (Inl Business_not_found_or_inactive, st)
          else
            (case cd_phone data of
               None \<Rightarrow> Some (Inl Creation_error, st)
             | Some phone \<Rightarrow>
                 (case find (\<lambda>w. pw_business_id w = business_id_arg \<and> pw_customer_phone w = phone)
                         (phantom_wallets st) of
                    Some existing \<Rightarrow> Some (Inl Already_has_wallet_with_business, st)
                  | None \<Rightarrow>
                      (case cd_name data of
                         None \<Rightarrow> Some (Inl Creation_error, st)
                       | Some name \<Rightarrow>
                           (case generate_ussd_code draws st of
                              None \<Rightarrow> None
                            | Some code \<Rightarrow>
                                let row = \<lparr>pw_id = new_id, pw_business_id = business_id_arg,
                                           pw_customer_phone = phone, pw_customer_name = name,
                                           pw_customer_email = cd_email data, pw_balance = 0,
                                           pw_daily_limit =
                                             (case cd_daily_limit data of
                                                None \<Rightarrow> DEFAULT_DAILY_LIMIT | Some l \<Rightarrow> l),
                                           pw_monthly_limit = DEFAULT_MONTHLY_LIMIT,
                                           pw_status = ACTIVE, pw_ussd_code = code\<rparr>
                                in if new_id \<in> set (map pw_id (phantom_wallets st))
                                   then Some (Inl Creation_error, st)
                                   else Some (Inr row,
                                              st\<lparr>phantom_wallets := phantom_wallets st @ [row]\<rparr>))))))"

subsection \<open>A small store\<close>

text \<open>
  Two active businesses; business 1 has a wallet for the phone \<^verbatim>\<open>+26771\<close> with daily
  limit 5000, and 4500 of completed payments dated today, 1 June 2025.
\<close>

definition ent_wallet :: PhantomWallet where
  "ent_wallet = \<lparr>pw_id = ''w1'', pw_business_id = ''b1'', pw_customer_phone = ''+26771'',
                 pw_customer_name = ''Thabo'', pw_customer_email = None, pw_balance = 4500,
                 pw_daily_limit = 5000, pw_monthly_limit = 50000, pw_status = ACTIVE,
                 pw_ussd_code = ''*0001#''\<rparr>"

definition example_store :: store where
  "example_store =
     \<lparr>phantom_wallets = [ent_wallet],
      all_transactions =
        [\<lparr>tx_id = ''t1'', tx_wallet_id = ''w1'', tx_amount = 4500, tx_type = CREDIT,
          tx_method = MOBILE_MONEY, tx_status = COMPLETED, tx_description = ''deposit'',
          tx_reference = ''PB1'', tx_timestamp = Date 2025 6 1\<rparr>],
      businesses =
        [\<lparr>b_id = ''b1'', b_status = Business_ACTIVE, b_total_deposit_volume = 4500,
          b_total_transaction_count = 1\<rparr>,
         \<lparr>b_id = ''b2'', b_status = Business_ACTIVE, b_total_deposit_volume = 0,
          b_total_transaction_count = 0\<rparr>]\<rparr>"

definition example_env :: payment_env where
  "example_env = \<lparr>env_today = Date 2025 6 1, env_utc_today = Date 2025 6 1,
                  env_transaction_id = ''t2'', env_reference = ''PB2''\<rparr>"


text \<open>
  The same wallet with a daily limit of 3.30 and one completed payment of 1.10 dated
  today; limit and amount are the doubles nearest to these decimals.
\<close>

definition decimal_store :: store where
  "decimal_store =
     \<lparr>phantom_wallets = [ent_wallet\<lparr>pw_daily_limit := round64 (33 / 10)\<rparr>],
      all_transactions =
        [\<lparr>tx_id = ''t1'', tx_wallet_id = ''w1'', tx_amount = round64 (11 / 10),
          tx_type = CREDIT, tx_method = MOBILE_MONEY, tx_status = COMPLETED,
          tx_description = ''deposit'', tx_reference = ''PB1'',
          tx_timestamp = Date 2025 6 1\<rparr>],
      businesses =
        [\<lparr>b_id = ''b1'', b_status = Business_ACTIVE, b_total_deposit_volume = 4500,
          b_total_transaction_count = 1\<rparr>]\<rparr>"

section \<open>Lemmas on the tables\<close>

lemmas handler_defs =
  customer_send_payment_def send_from_wallet_def handle_recipient_def request_phone_def
  sender_wallet_def merchant_topup_wallet_def customer_topup_def create_wallet_def
  set_wallet_status_def deactivate_wallet_def activate_wallet_def
  fetchone_def update_where_def dict_get_def truthy_def py_or_def startswith_def
  channel_fee_def fee_structure_def traditional_fees_def balance_of_def succeeded_def
  Let_def

lemmas example_defs =
  example_db_def wallet_A_def wallet_B_def wallet_C_def customer_def send_request_def

lemma channel_fee_values:
  "channel_fee ''phantom_wallet'' = 0"
  "channel_fee ''qr_code'' = 0"
  "channel_fee ''ussd'' = 3 / 2"
  "channel_fee ''orange_money'' = 5 / 2"
  "channel_fee ''myzaka'' = 3"
  by (simp_all add: channel_fee_def fee_structure_def dict_get_def)

lemma find_map_preserved:
  "(\<And>r. P (g r) = P r) \<Longrightarrow> find P (map g rows) = map_option g (find P rows)"
  by (induction rows) auto

lemma find_Some_D: "find P rows = Some w \<Longrightarrow> w \<in> set rows \<and> P w"
  by (induction rows) (auto split: if_splits)

lemma balance_of_update:
  "balance_of (s\<lparr>wallets := update_where (\<lambda>x. wallet_id x = k')
        (\<lambda>x. x\<lparr>balance := balance x + d, last_activity := n\<rparr>) (wallets s)\<rparr>) k
   = (if k = k' \<and> k \<in> set (map wallet_id (wallets s)) then balance_of s k + d
      else balance_of s k)"
proof -
  let ?g = "\<lambda>r. if wallet_id r = k' then r\<lparr>balance := balance r + d, last_activity := n\<rparr> else r"
  have pres: "find (\<lambda>w. wallet_id w = k) (map ?g (wallets s))
                = map_option ?g (find (\<lambda>w. wallet_id w = k) (wallets s))"
    by (rule find_map_preserved) simp
  show ?thesis
  proof (cases "find (\<lambda>w. wallet_id w = k) (wallets s)")
    case None
    then have "k \<notin> set (map wallet_id (wallets s))"
      by (auto simp: find_None_iff)
    with None pres show ?thesis
      by (simp add: balance_of_def fetchone_def update_where_def)
  next
    case (Some w)
    then have "w \<in> set (wallets s)" and "wallet_id w = k"
      using find_Some_D [of "\<lambda>w. wallet_id w = k" "wallets s" w] by auto
    then have mem: "k \<in> set (map wallet_id (wallets s))" by force
    have before: "balance_of s k = balance w"
      using Some by (simp add: balance_of_def fetchone_def)
    have after: "balance_of (s\<lparr>wallets := update_where (\<lambda>x. wallet_id x = k')
        (\<lambda>x. x\<lparr>balance := balance x + d, last_activity := n\<rparr>) (wallets s)\<rparr>) k
        = balance (?g w)"
      using pres Some by (simp add: balance_of_def fetchone_def update_where_def)
    show ?thesis
      unfolding after before using mem \<open>wallet_id w = k\<close> by auto
  qed
qed

lemma active_lookup_after_update:
  "fetchone (\<lambda>w. wallet_id w = k \<and> status w = st)
     (update_where (\<lambda>x. wallet_id x = k')
        (\<lambda>x. x\<lparr>balance := balance x + d, last_activity := n\<rparr>) rows) = None
   \<longleftrightarrow> fetchone (\<lambda>w. wallet_id w = k \<and> status w = st) rows = None"
proof -
  let ?g = "\<lambda>r. if wallet_id r = k' then r\<lparr>balance := balance r + d, last_activity := n\<rparr> else r"
  have "find (\<lambda>w. wallet_id w = k \<and> status w = st) (map ?g rows)
          = map_option ?g (find (\<lambda>w. wallet_id w = k \<and> status w = st) rows)"
    by (rule find_map_preserved) simp
  then show ?thesis
    by (simp add: fetchone_def update_where_def)
qed

lemma balance_of_debit:
  "balance_of (s\<lparr>wallets := update_where (\<lambda>x. wallet_id x = k')
        (\<lambda>x. x\<lparr>balance := balance x - d, last_activity := n\<rparr>) (wallets s)\<rparr>) k
   = (if k = k' \<and> k \<in> set (map wallet_id (wallets s)) then balance_of s k - d
      else balance_of s k)"
  using balance_of_update [where s = s and k' = k' and d = "- d" and n = n and k = k]
  by (auto split: if_splits)

lemma resolves_after_debit:
  "resolves_to_wallet ch recipient
     (s\<lparr>wallets := update_where (\<lambda>x. wallet_id x = k')
        (\<lambda>x. x\<lparr>balance := balance x - d, last_activity := n\<rparr>) (wallets s)\<rparr>)
   = resolves_to_wallet ch recipient s"
  using active_lookup_after_update [where k = recipient and st = "''active''" and k' = k'
      and d = "- d" and n = n and rows = "wallets s"]
  by (simp add: resolves_to_wallet_def)

lemma handle_recipient_transactions:
  "transactions (snd (handle_recipient now ch recipient amt s)) = transactions s"
  by (simp add: handle_recipient_def split: option.splits)

lemma handle_recipient_wallets_snd:
  "wallets (snd (handle_recipient now ch recipient amt s)) =
     (if resolves_to_wallet ch recipient s then
        update_where (\<lambda>w. wallet_id w = recipient)
          (\<lambda>w. w\<lparr>balance := balance w + amt, last_activity := now\<rparr>) (wallets s)
      else wallets s)"
  by (auto simp: handle_recipient_def resolves_to_wallet_def split: option.splits)

lemma wallet_ids_update_where:
  "map wallet_id (update_where P (\<lambda>x. x\<lparr>balance := f x, last_activity := n\<rparr>) rows)
     = map wallet_id rows"
  by (induction rows) (auto simp: update_where_def)

lemma send_from_wallet_ok:
  assumes "amt + channel_fee ch \<le> balance w"
    and "tid \<notin> set (map transaction_id (transactions s))"
  shows "\<exists>resp s'. send_from_wallet now tid w amt ch recipient s = (Inr resp, s')
           \<and> resp_fee resp = channel_fee ch
           \<and> resp_amount resp = amt
           \<and> resp_new_balance resp = balance w - (amt + channel_fee ch)
           \<and> transactions s' = transactions s @ [send_row now tid (wallet_id w) amt ch recipient]
           \<and> (\<forall>k. balance_of s' k =
                  balance_of s k
                  - (if k = wallet_id w \<and> k \<in> set (map wallet_id (wallets s))
                     then amt + channel_fee ch else 0)
                  + (if resolves_to_wallet ch recipient s \<and> k = recipient then amt else 0))"
proof -
  let ?s1 = "s\<lparr>wallets := update_where (\<lambda>x. wallet_id x = wallet_id w)
                (\<lambda>x. x\<lparr>balance := balance x - (amt + channel_fee ch), last_activity := now\<rparr>)
                (wallets s)\<rparr>"
  let ?h = "handle_recipient now ch recipient amt ?s1"
  let ?s2 = "snd ?h"
  let ?s' = "?s2\<lparr>transactions := transactions ?s2 @ [send_row now tid (wallet_id w) amt ch recipient]\<rparr>"
  have tx: "transactions ?s2 = transactions s"
    by (simp add: handle_recipient_transactions)
  define resp where "resp =
      \<lparr>resp_transaction_id = tid, resp_amount = amt, resp_fee = channel_fee ch,
       resp_fee_saved = (if dict_get traditional_fees ch 0 - channel_fee ch > 0
                         then Some (dict_get traditional_fees ch 0 - channel_fee ch)
                         else None),
       resp_channel = ch, resp_recipient = recipient,
       resp_recipient_type = fst ?h,
       resp_new_balance = balance w - (amt + channel_fee ch)\<rparr>"
  have eq: "send_from_wallet now tid w amt ch recipient s = (Inr resp, ?s')"
  proof -
    obtain rt s2 where h: "?h = (rt, s2)" by (cases ?h)
    with tx have "transactions s2 = transactions s" by simp
    with assms h show ?thesis
      by (simp add: send_from_wallet_def Let_def send_row_def resp_def)
  qed
  have resp: "resp_fee resp = channel_fee ch" "resp_amount resp = amt"
    "resp_new_balance resp = balance w - (amt + channel_fee ch)"
    by (simp_all add: resp_def)
  have tx': "transactions ?s' = transactions s @ [send_row now tid (wallet_id w) amt ch recipient]"
    using tx by simp
  have bal: "balance_of ?s' k =
                  balance_of s k
                  - (if k = wallet_id w \<and> k \<in> set (map wallet_id (wallets s))
                     then amt + channel_fee ch else 0)
                  + (if resolves_to_wallet ch recipient s \<and> k = recipient then amt else 0)" for k
  proof -
    have w2: "wallets ?s' = wallets ?s2" by simp
    have b1: "balance_of ?s1 k = balance_of s k
                  - (if k = wallet_id w \<and> k \<in> set (map wallet_id (wallets s))
                     then amt + channel_fee ch else 0)"
      by (auto simp: balance_of_debit)
    show ?thesis
    proof (cases "resolves_to_wallet ch recipient s")
      case False
      then have "wallets ?s2 = wallets ?s1"
        by (simp add: handle_recipient_wallets_snd resolves_after_debit)
      then have "balance_of ?s' k = balance_of ?s1 k"
        using w2 by (simp add: balance_of_def)
      with b1 False show ?thesis by simp
    next
      case True
      then have ws: "wallets ?s2 = wallets (?s1\<lparr>wallets := update_where (\<lambda>w. wallet_id w = recipient)
          (\<lambda>w. w\<lparr>balance := balance w + amt, last_activity := now\<rparr>) (wallets ?s1)\<rparr>)"
        by (simp add: handle_recipient_wallets_snd resolves_after_debit)
      have present: "recipient \<in> set (map wallet_id (wallets ?s1))"
      proof -
        from True obtain rw where "find (\<lambda>w. wallet_id w = recipient \<and> status w = ''active'') (wallets s) = Some rw"
          by (auto simp: resolves_to_wallet_def fetchone_def)
        then have "rw \<in> set (wallets s)" and "wallet_id rw = recipient"
          using find_Some_D [of _ "wallets s" rw] by auto
        then have "recipient \<in> set (map wallet_id (wallets s))" by force
        moreover have "map wallet_id (wallets ?s1) = map wallet_id (wallets s)"
          using wallet_ids_update_where [where P = "\<lambda>x. wallet_id x = wallet_id w"
              and f = "\<lambda>x. balance x - (amt + channel_fee ch)" and n = now and rows = "wallets s"]
          by simp
        ultimately show ?thesis by simp
      qed
      have "balance_of ?s' k = balance_of (?s1\<lparr>wallets := update_where (\<lambda>w. wallet_id w = recipient)
          (\<lambda>w. w\<lparr>balance := balance w + amt, last_activity := now\<rparr>) (wallets ?s1)\<rparr>) k"
        using ws w2 by (simp add: balance_of_def)
      also have "\<dots> = (if k = recipient then balance_of ?s1 k + amt else balance_of ?s1 k)"
        using present by (simp only: balance_of_update) auto
      finally have step: "balance_of ?s' k =
          (if k = recipient then balance_of ?s1 k + amt else balance_of ?s1 k)" .
      show ?thesis
        unfolding step b1 using True by auto
    qed
  qed
  show ?thesis
    using eq resp tx' bal by blast
qed

lemma customer_send_payment_found:
  assumes "usr = Some u" and "user_type u = ''customer''"
    and "sp_amount data = Some amt" and "sp_channel data = Some ch"
    and "sp_recipient data = Some recipient"
    and "truthy (request_phone data)"
    and "sender_wallet data s = Some w"
  shows "customer_send_payment now tid usr data s = send_from_wallet now tid w amt ch recipient s"
  using assms by (simp add: customer_send_payment_def)

lemma sender_wallet_present:
  assumes "sender_wallet data s = Some w"
  shows "wallet_id w \<in> set (map wallet_id (wallets s))" and "status w = ''active''"
proof -
  from assms obtain P where "find P (wallets s) = Some w"
     and P: "\<And>x. P x \<Longrightarrow> status x = ''active''"
    by (auto simp: sender_wallet_def fetchone_def Let_def split: if_splits)
  then have "w \<in> set (wallets s)" and "status w = ''active''"
    using find_Some_D [of P "wallets s" w] by auto
  then show "wallet_id w \<in> set (map wallet_id (wallets s))" and "status w = ''active''"
    by auto
qed

section \<open>Evaluating binary64 sums\<close>

text \<open>
  A rounded value of magnitude at most \<open>2\<^sup>6\<^sup>4\<close> is far from overflow, so \<open>fround\<close>
  and \<open>fadd\<close> deliver \<open>round64\<close> of the exact value.
\<close>

lemma fround_small:
  assumes "round64 x = c" and "\<bar>c\<bar> \<le> 2 ^ 64"
  shows "fround x = Finite c"
proof -
  have "(2::rat) ^ 64 < 2 ^ 1024"
    by (rule power_strict_increasing) simp_all
  with assms(2) have "\<not> 2 ^ 1024 \<le> c" "\<not> c \<le> - (2 ^ 1024)"
    by linarith+
  with assms(1) show ?thesis
    by (simp only: fround_def Let_def if_False)
qed

lemma fadd_small:
  assumes "round64 (a + b) = c" and "\<bar>c\<bar> \<le> 2 ^ 64"
  shows "fadd (Finite a) (Finite b) = Finite c"
  using fround_small [OF assms] by simp

lemma flt_irrefl: "\<not> flt x x"
  by (cases x) simp_all

text \<open>The doubles nearest to some decimals, and the sums used below.\<close>

lemma decimal_values:
  "fround (303 / 100) = Finite (6822953435466301 / 2251799813685248)"
  "fround (53 / 100) = Finite (2386907802506363 / 4503599627370496)"
  "fround (49751 / 100) = Finite (2188072119739351 / 4398046511104)"
  "fround (995 / 2) = Finite (995 / 2)"
  "fround 500 = Finite 500"
  "fround (5 / 2) = Finite (5 / 2)"
  "fround (1 / 1152921504606846976) = Finite (1 / 1152921504606846976)"
  "fround (11 / 5) = Finite (2476979795053773 / 1125899906842624)"
  "round64 (11 / 10) = 2476979795053773 / 2251799813685248"
  "round64 (33 / 10) = 3715469692580659 / 1125899906842624"
  by ((rule fround_small)?; code_simp)+

lemma decimal_sums:
  "fadd (Finite (2386907802506363 / 4503599627370496)) (Finite (5 / 2))
     = Finite (3411476717733151 / 1125899906842624)"
  "fadd (Finite (2188072119739351 / 4398046511104)) (Finite (5 / 2))
     = Finite (2199067236017111 / 4398046511104)"
  "fadd (Finite (995 / 2)) (Finite (5 / 2)) = Finite 500"
  "fadd (Finite (1 / 1152921504606846976)) (Finite (5 / 2)) = Finite (5 / 2)"
  "fadd (Finite (5 / 2)) (Finite (- (5 / 2))) = Finite 0"
  "fadd (Finite 0) (Finite 4500) = Finite 4500"
  "fadd (Finite 4500) (Finite 600) = Finite 5100"
  "fadd (Finite 0) (Finite (2476979795053773 / 2251799813685248))
     = Finite (2476979795053773 / 2251799813685248)"
  "fadd (Finite (2476979795053773 / 2251799813685248))
        (Finite (2476979795053773 / 1125899906842624))
     = Finite (7430939385161319 / 2251799813685248)"
  by (rule fadd_small; code_simp)+

lemmas handler64_defs =
  customer_send_payment64_def send_from_wallet64_def sender_wallet64_def
  request_phone64_def handle_recipient64_def sql_real_def sql_add_def sql_sub_def fsub_def
  succeeded64_def decimal_db_def decimal_request_def customer_def
  py_or_def truthy_def fetchone_def update_where_def startswith_def
  channel_fee_def fee_structure_def traditional_fees_def dict_get_def Let_def
  decimal_values decimal_sums

section \<open>The balance check of send payment\<close>

lemma handle_recipient64_transactions:
  "transactions64 (snd (handle_recipient64 now ch recipient amt s)) = transactions64 s"
  by (simp add: handle_recipient64_def split: option.splits)

text \<open>
  Claim C3 fails on the code where the sum \<open>amount + fee\<close> is rounded. The handler
  compares the balance with the float \<^verbatim>\<open>amount + fee\<close>, not with the exact sum.
  With a balance of 3.03 and an amount of 0.53 over \<^verbatim>\<open>orange_money\<close> (fee 2.50), where
  \<open>0.53 + 2.50 = 3.03\<close>, the float sum is above the float balance and the call is
  refused. With a balance of 2.50 and the amount \<open>2\<^sup>-\<^sup>6\<^sup>0\<close> over the same channel, the
  exact sum exceeds the balance, the float sum is 2.50, and the call succeeds and leaves
  a balance of 0.
\<close>

theorem send_payment_balance_boundary_counterexample:
  "(53 / 100 + 5 / 2 = (303 / 100 :: rat))
   \<and> customer_send_payment64 1 ''txn_1'' customer
        (decimal_request (53 / 100) ''orange_money'' ''+26779'') (decimal_db (303 / 100))
     = (Inl (InsufficientBalance64 (Finite (6822953435466301 / 2251799813685248))
               (Finite (3411476717733151 / 1125899906842624))),
        decimal_db (303 / 100))
   \<and> ((5 / 2 :: rat) < 1 / 2 ^ 60 + 5 / 2)
   \<and> succeeded64 (customer_send_payment64 1 ''txn_1'' customer
        (decimal_request (1 / 2 ^ 60) ''orange_money'' ''+26779'') (decimal_db (5 / 2)))
   \<and> map w64_balance (wallets64 (snd (customer_send_payment64 1 ''txn_1'' customer
        (decimal_request (1 / 2 ^ 60) ''orange_money'' ''+26779'') (decimal_db (5 / 2)))))
     = [Some (Finite 0)]"
  by (simp add: handler64_defs del: fadd.simps)

text \<open>
  Claim C3, amended. Take a send-payment request from a customer with its required fields
  and a phone number, whose sending wallet \<open>w\<close> is found with a balance that is not
  \<^verbatim>\<open>NULL\<close>, an amount that is not NaN, and a fresh transaction id. Let \<open>total\<close> be the
  binary64 sum of amount and fee. The call succeeds exactly when the balance is not below
  \<open>total\<close>; so it succeeds when the balance equals \<open>total\<close>. The balance is below
  \<open>total\<close> exactly when the answer is the insufficient-balance error carrying the
  available balance and \<open>total\<close>, with every table as it was before the call.
\<close>

theorem send_payment_balance_boundary:
  assumes "usr = Some u" and "user_type u = ''customer''"
    and "sp64_amount data = Some amt" and "sp64_channel data = Some ch"
    and "sp64_recipient data = Some recipient"
    and "truthy (request_phone64 data)"
    and "sender_wallet64 data s = Some w"
    and "w64_balance w = Some bal"
    and "amt \<noteq> NaN"
    and "tid \<notin> set (map t64_transaction_id (transactions64 s))"
  shows "succeeded64 (customer_send_payment64 now tid usr data s)
           = (\<not> flt bal (fadd amt (Finite (channel_fee ch))))
       \<and> (bal = fadd amt (Finite (channel_fee ch))
            \<longrightarrow> succeeded64 (customer_send_payment64 now tid usr data s))
       \<and> flt bal (fadd amt (Finite (channel_fee ch)))
           = (customer_send_payment64 now tid usr data s
                = (Inl (InsufficientBalance64 bal (fadd amt (Finite (channel_fee ch)))), s))"
proof -
  let ?total = "fadd amt (Finite (channel_fee ch))"
  let ?s1 = "s\<lparr>wallets64 := update_where (\<lambda>x. w64_wallet_id x = w64_wallet_id w)
                (\<lambda>x. x\<lparr>w64_balance := sql_sub (w64_balance x) ?total,
                       w64_last_activity := now\<rparr>) (wallets64 s)\<rparr>"
  have call: "customer_send_payment64 now tid usr data s
                = send_from_wallet64 now tid w amt ch recipient s"
    using assms(1-7) by (simp add: customer_send_payment64_def)
  obtain rt s2 where h: "handle_recipient64 now ch recipient amt ?s1 = (rt, s2)"
    by (cases "handle_recipient64 now ch recipient amt ?s1")
  have tx: "transactions64 s2 = transactions64 s"
    using handle_recipient64_transactions [of now ch recipient amt ?s1] h by simp
  have stored: "sql_real amt \<noteq> None"
    using assms(9) by (simp add: sql_real_def)
  have exact: "succeeded64 (customer_send_payment64 now tid usr data s) = (\<not> flt bal ?total)
       \<and> flt bal ?total
           = (customer_send_payment64 now tid usr data s
                = (Inl (InsufficientBalance64 bal ?total), s))"
  proof (cases "flt bal ?total")
    case True
    then show ?thesis
      using assms(8) call by (simp add: send_from_wallet64_def succeeded64_def Let_def)
  next
    case False
    then show ?thesis
      using assms(8,10) call h tx stored
      by (simp add: send_from_wallet64_def succeeded64_def Let_def)
  qed
  then show ?thesis
    using flt_irrefl [of bal] by auto
qed

text \<open>
  A wallet that holds 500. Sending 497.50 over \<^verbatim>\<open>orange_money\<close> (fee 2.50) takes
  exactly the balance and succeeds; sending 497.51 is refused and changes nothing.
\<close>

theorem send_payment_balance_boundary_witness:
  "succeeded64 (customer_send_payment64 1 ''txn_1'' customer
       (decimal_request (995 / 2) ''orange_money'' ''+26779'') (decimal_db 500))
   \<and> customer_send_payment64 1 ''txn_1'' customer
       (decimal_request (49751 / 100) ''orange_money'' ''+26779'') (decimal_db 500)
     = (Inl (InsufficientBalance64 (Finite 500) (Finite (2199067236017111 / 4398046511104))),
        decimal_db 500)"
proof -
  let ?u = "\<lparr>user_id = ''anyone'', user_type = ''customer''\<rparr>"
  let ?w = "\<lparr>w64_wallet_id = ''pw_bw_a'', w64_customer_phone = ''+26771'',
             w64_balance = Some (Finite 500), w64_status = ''active'',
             w64_last_activity = 0\<rparr>"
  let ?exact = "decimal_request (995 / 2) ''orange_money'' ''+26779''"
  let ?over = "decimal_request (49751 / 100) ''orange_money'' ''+26779''"
  let ?a = "Finite (995 / 2)"
  let ?b = "Finite (2188072119739351 / 4398046511104)"
  let ?fee = "Finite (channel_fee ''orange_money'')"
  have usr: "customer = Some ?u" "user_type ?u = ''customer''"
    by (simp_all add: customer_def)
  have fields: "sp64_amount ?exact = Some ?a" "sp64_amount ?over = Some ?b"
    "sp64_channel ?exact = Some ''orange_money''" "sp64_channel ?over = Some ''orange_money''"
    "sp64_recipient ?exact = Some ''+26779''" "sp64_recipient ?over = Some ''+26779''"
    by (simp_all add: decimal_request_def decimal_values)
  have phone: "truthy (request_phone64 ?exact)" "truthy (request_phone64 ?over)"
    by (simp_all add: handler64_defs)
  have sender: "sender_wallet64 ?exact (decimal_db 500) = Some ?w"
    "sender_wallet64 ?over (decimal_db 500) = Some ?w"
    by (simp_all add: handler64_defs)
  have bal: "w64_balance ?w = Some (Finite 500)"
    by simp
  have numbers: "?a \<noteq> NaN" "?b \<noteq> NaN"
    by simp_all
  have fresh: "''txn_1'' \<notin> set (map t64_transaction_id (transactions64 (decimal_db 500)))"
    by (simp add: decimal_db_def)
  have total: "fadd ?a ?fee = Finite 500"
    "fadd ?b ?fee = Finite (2199067236017111 / 4398046511104)"
    by (simp_all add: channel_fee_values decimal_sums del: fadd.simps)
  have enough: "\<not> flt (Finite 500) (fadd ?a ?fee)"
    by (simp add: total del: fadd.simps)
  have short: "flt (Finite 500) (fadd ?b ?fee)"
    by (simp add: total del: fadd.simps)
  have a: "succeeded64 (customer_send_payment64 1 ''txn_1'' customer ?exact (decimal_db 500))"
    using send_payment_balance_boundary [where usr = customer and u = ?u and data = ?exact
        and amt = ?a and ch = "''orange_money''" and recipient = "''+26779''"
        and w = ?w and bal = "Finite 500" and s = "decimal_db 500" and tid = "''txn_1''"
        and now = 1,
        OF usr fields(1) fields(3) fields(5) phone(1) sender(1) bal numbers(1) fresh]
      enough
    by blast
  have "customer_send_payment64 1 ''txn_1'' customer ?over (decimal_db 500)
          = (Inl (InsufficientBalance64 (Finite 500) (fadd ?b ?fee)), decimal_db 500)"
    using send_payment_balance_boundary [where usr = customer and u = ?u and data = ?over
        and amt = ?b and ch = "''orange_money''" and recipient = "''+26779''"
        and w = ?w and bal = "Finite 500" and s = "decimal_db 500" and tid = "''txn_1''"
        and now = 1,
        OF usr fields(2) fields(4) fields(6) phone(2) sender(2) bal numbers(2) fresh]
      short
    by blast
  then have b: "customer_send_payment64 1 ''txn_1'' customer ?over (decimal_db 500)
          = (Inl (InsufficientBalance64 (Finite 500)
                    (Finite (2199067236017111 / 4398046511104))), decimal_db 500)"
    by (simp only: total)
  show ?thesis using a b by (rule conjI)
qed

section \<open>The fee table of send payment\<close>






section \<open>Phantom transfers between wallets\<close>

text \<open>
  Claim C2 at a failing input. Wallet C of the small database is a wallet of the system
  and has been deactivated. A send of 150 from A to C over \<^verbatim>\<open>phantom_wallet\<close> is not
  rejected: it succeeds with fee 0 and records one row with both \<^verbatim>\<open>from_wallet\<close> and
  \<^verbatim>\<open>to_wallet\<close> set, yet only A is touched. The receiver is not credited, and the two
  balances add up to 500 before the call and to 350 after it: the pair has lost 150,
  where the retained fee is 0. The handler debits the sender before it looks the
  recipient up and has no branch for a lookup that finds no active wallet.
\<close>

theorem phantom_transfer_to_inactive_wallet:
  "succeeded (customer_send_payment 1 ''txn_1'' customer
       (send_request ''pw_bw_a'' 150 ''phantom_wallet'' ''pw_bw_c'') example_db)
   \<and> channel_fee ''phantom_wallet'' = 0
   \<and> map (\<lambda>r. (from_wallet r, to_wallet r))
         (transactions (snd (customer_send_payment 1 ''txn_1'' customer
            (send_request ''pw_bw_a'' 150 ''phantom_wallet'' ''pw_bw_c'') example_db)))
       = [(Some ''pw_bw_a'', Some ''pw_bw_c'')]
   \<and> balance_of example_db ''pw_bw_a'' + balance_of example_db ''pw_bw_c'' = 500
   \<and> balance_of (snd (customer_send_payment 1 ''txn_1'' customer
          (send_request ''pw_bw_a'' 150 ''phantom_wallet'' ''pw_bw_c'') example_db)) ''pw_bw_a''
       + balance_of (snd (customer_send_payment 1 ''txn_1'' customer
          (send_request ''pw_bw_a'' 150 ''phantom_wallet'' ''pw_bw_c'') example_db)) ''pw_bw_c''
       = 350"
  by (simp add: handler_defs example_defs)


text \<open>
  Where the recipient wallet is active the transfer is as described. Take a
  \<^verbatim>\<open>phantom_wallet\<close> request from a customer with its required fields and a phone
  number, whose sending wallet \<open>w\<close> is found, whose recipient starts with \<^verbatim>\<open>pw_bw_\<close>
  and is the id of an active wallet other than the sender's, with
  \<open>amount + fee \<le> balance\<close> and a fresh transaction id. The call succeeds and appends
  exactly one row, with \<^verbatim>\<open>from_wallet\<close> the sender and \<^verbatim>\<open>to_wallet\<close> the recipient;
  the sender is debited \<open>amount + fee\<close>, the recipient credited \<open>amount\<close>, and the sum
  of the two balances falls by the fee, which is 0 on this channel.
\<close>

lemma phantom_transfer_between_active_wallets:
  assumes "usr = Some u" and "user_type u = ''customer''"
    and "sp_amount data = Some amt" and "sp_channel data = Some ''phantom_wallet''"
    and "sp_recipient data = Some recipient"
    and "truthy (request_phone data)"
    and "sender_wallet data s = Some w"
    and "startswith recipient ''pw_bw_''"
    and "fetchone (\<lambda>x. wallet_id x = recipient \<and> status x = ''active'') (wallets s) = Some rw"
    and "recipient \<noteq> wallet_id w"
    and "amt + channel_fee ''phantom_wallet'' \<le> balance w"
    and "tid \<notin> set (map transaction_id (transactions s))"
  shows "\<exists>resp s' row. customer_send_payment now tid usr data s = (Inr resp, s')
           \<and> transactions s' = transactions s @ [row]
           \<and> transaction_id row = tid
           \<and> from_wallet row = Some (wallet_id w) \<and> to_wallet row = Some recipient
           \<and> amount row = amt \<and> fee row = channel_fee ''phantom_wallet''
           \<and> channel_fee ''phantom_wallet'' = 0
           \<and> balance_of s' (wallet_id w)
                = balance_of s (wallet_id w) - (amt + channel_fee ''phantom_wallet'')
           \<and> balance_of s' recipient = balance_of s recipient + amt
           \<and> balance_of s' (wallet_id w) + balance_of s' recipient
                = balance_of s (wallet_id w) + balance_of s recipient
                  - channel_fee ''phantom_wallet''"
proof -
  let ?ch = "''phantom_wallet''"
  have call: "customer_send_payment now tid usr data s
                = send_from_wallet now tid w amt ?ch recipient s"
    using assms(1-7) by (rule customer_send_payment_found)
  have res: "resolves_to_wallet ?ch recipient s"
    using assms(8,9) by (auto simp: resolves_to_wallet_def startswith_def)
  from send_from_wallet_ok [OF assms(11,12), of now recipient]
  obtain resp s' where r: "send_from_wallet now tid w amt ?ch recipient s = (Inr resp, s')"
    and tx: "transactions s' = transactions s @ [send_row now tid (wallet_id w) amt ?ch recipient]"
    and bal: "\<And>k. balance_of s' k =
                  balance_of s k
                  - (if k = wallet_id w \<and> k \<in> set (map wallet_id (wallets s))
                     then amt + channel_fee ?ch else 0)
                  + (if resolves_to_wallet ?ch recipient s \<and> k = recipient then amt else 0)"
    by blast
  have present: "wallet_id w \<in> set (map wallet_id (wallets s))"
    using assms(7) by (rule sender_wallet_present)
  have b1: "balance_of s' (wallet_id w)
                = balance_of s (wallet_id w) - (amt + channel_fee ?ch)"
    unfolding bal using present res assms(10) by auto
  have b2: "balance_of s' recipient = balance_of s recipient + amt"
    unfolding bal using res assms(10) by auto
  have b3: "balance_of s' (wallet_id w) + balance_of s' recipient
                = balance_of s (wallet_id w) + balance_of s recipient - channel_fee ?ch"
    unfolding b1 b2 by simp
  let ?row = "send_row now tid (wallet_id w) amt ?ch recipient"
  have row: "transaction_id ?row = tid" "from_wallet ?row = Some (wallet_id w)"
    "to_wallet ?row = Some recipient" "amount ?row = amt" "fee ?row = channel_fee ?ch"
    by (simp_all add: send_row_def)
  have zero: "channel_fee ?ch = 0" by (rule channel_fee_values)
  have c: "customer_send_payment now tid usr data s = (Inr resp, s')"
    using call r by simp
  show ?thesis
    by (intro exI [of _ resp] exI [of _ s'] exI [of _ ?row] conjI)
       (fact c tx row zero b1 b2 b3)+
qed



text \<open>Sending 150 from A (500) to the active wallet B (0): one row, 350 and 150 after.\<close>

lemma phantom_transfer_between_active_wallets_example:
  "\<exists>resp s' row. customer_send_payment 1 ''txn_1'' customer
          (send_request ''pw_bw_a'' 150 ''phantom_wallet'' ''pw_bw_b'') example_db = (Inr resp, s')
      \<and> transactions s' = [row]
      \<and> from_wallet row = Some ''pw_bw_a'' \<and> to_wallet row = Some ''pw_bw_b''
      \<and> amount row = 150 \<and> fee row = 0
      \<and> balance_of s' ''pw_bw_a'' = 350 \<and> balance_of s' ''pw_bw_b'' = 150"
proof -
  let ?data = "send_request ''pw_bw_a'' 150 ''phantom_wallet'' ''pw_bw_b''"
  have sender: "sender_wallet ?data example_db = Some wallet_A"
    by (simp add: handler_defs example_defs)
  have phone: "truthy (request_phone ?data)"
    by (simp add: handler_defs example_defs)
  have fresh: "''txn_1'' \<notin> set (map transaction_id (transactions example_db))"
    by (simp add: example_defs)
  have funds: "150 + channel_fee ''phantom_wallet'' \<le> balance wallet_A"
    by (simp add: handler_defs example_defs)
  have pre: "startswith ''pw_bw_b'' ''pw_bw_''"
    by (simp add: startswith_def)
  have rcp: "fetchone (\<lambda>x. wallet_id x = ''pw_bw_b'' \<and> status x = ''active'')
               (wallets example_db) = Some wallet_B"
    by (simp add: handler_defs example_defs)
  have other: "''pw_bw_b'' \<noteq> wallet_id wallet_A"
    by (simp add: example_defs)
  have before: "balance_of example_db ''pw_bw_a'' = 500" "balance_of example_db ''pw_bw_b'' = 0"
    "transactions example_db = []" "wallet_id wallet_A = ''pw_bw_a''"
    "channel_fee ''phantom_wallet'' = 0"
    by (simp_all add: handler_defs example_defs)
  from phantom_transfer_between_active_wallets [where usr = customer
        and u = "\<lparr>user_id = ''anyone'', user_type = ''customer''\<rparr>" and data = ?data
        and amt = 150 and recipient = "''pw_bw_b''" and rw = wallet_B
        and w = wallet_A and s = example_db and tid = "''txn_1''" and now = 1,
        OF _ _ _ _ _ phone sender pre rcp other funds fresh]
  obtain resp s' row where
    "customer_send_payment 1 ''txn_1'' customer ?data example_db = (Inr resp, s')"
    "transactions s' = [row]"
    "from_wallet row = Some ''pw_bw_a''" "to_wallet row = Some ''pw_bw_b''"
    "amount row = 150" "fee row = 0"
    "balance_of s' ''pw_bw_a'' = 350" "balance_of s' ''pw_bw_b'' = 150"
    by (auto simp: customer_def send_request_def before)
  then show ?thesis by blast
qed


section \<open>Recipients that resolve to nothing\<close>

text \<open>
  Claim C6 at a failing input. No wallet has the id \<^verbatim>\<open>pw_bw_zz\<close>. A send of 100 from A
  to that id over \<^verbatim>\<open>phantom_wallet\<close> is not rejected: the handler answers success with
  \<^verbatim>\<open>recipient_type = 'external'\<close>, debits A by 100, credits no wallet and no
  merchant, and stores the raw recipient string in \<^verbatim>\<open>to_wallet\<close> of the recorded row.
\<close>

theorem unresolved_phantom_recipient_is_debited:
  "customer_send_payment 1 ''txn_1'' customer
       (send_request ''pw_bw_a'' 100 ''phantom_wallet'' ''pw_bw_zz'') example_db
   = (Inr \<lparr>resp_transaction_id = ''txn_1'', resp_amount = 100, resp_fee = 0,
           resp_fee_saved = None, resp_channel = ''phantom_wallet'',
           resp_recipient = ''pw_bw_zz'', resp_recipient_type = ''external'',
           resp_new_balance = 400\<rparr>,
      example_db\<lparr>wallets := [wallet_A\<lparr>balance := 400, last_activity := 1\<rparr>, wallet_B, wallet_C],
                 transactions := [send_row 1 ''txn_1'' ''pw_bw_a'' 100 ''phantom_wallet'' ''pw_bw_zz'']\<rparr>)
   \<and> to_wallet (send_row 1 ''txn_1'' ''pw_bw_a'' 100 ''phantom_wallet'' ''pw_bw_zz'')
       = Some ''pw_bw_zz''
   \<and> \<not> resolves_to_wallet ''phantom_wallet'' ''pw_bw_zz'' example_db"
  by (simp add: handler_defs example_defs resolves_to_wallet_def send_row_def)

section \<open>Amounts that are not positive\<close>

text \<open>
  Claim C1 at a failing input. Every balance of the small database is non-negative.
  \<^verbatim>\<open>customer_send_payment\<close> does not look at the sign of the amount: sending -100
  from A to B over \<^verbatim>\<open>phantom_wallet\<close> passes the balance check (500 is not below
  -100), raises A to 600 and drives B from 0 to -100. Over \<^verbatim>\<open>orange_money\<close> a send of
  -600 raises A to 1097.50.
\<close>

theorem negative_amount_overdraws:
  "succeeded (customer_send_payment 1 ''txn_1'' customer
       (send_request ''pw_bw_a'' (- 100) ''phantom_wallet'' ''pw_bw_b'') example_db)
   \<and> balance_of example_db ''pw_bw_b'' = 0
   \<and> balance_of (snd (customer_send_payment 1 ''txn_1'' customer
          (send_request ''pw_bw_a'' (- 100) ''phantom_wallet'' ''pw_bw_b'') example_db)) ''pw_bw_b''
       = - 100
   \<and> balance_of (snd (customer_send_payment 1 ''txn_1'' customer
          (send_request ''pw_bw_a'' (- 100) ''phantom_wallet'' ''pw_bw_b'') example_db)) ''pw_bw_a''
       = 600
   \<and> balance_of (snd (customer_send_payment 1 ''txn_1'' customer
          (send_request ''pw_bw_a'' (- 600) ''orange_money'' ''+26779'') example_db)) ''pw_bw_a''
       = 500 + 600 - 5 / 2"
  by (simp add: handler_defs example_defs)


text \<open>
  What the balance check does secure: when wallet ids are distinct (the primary key), no
  balance is negative and the amount sent is not negative, no balance is negative after
  \<^verbatim>\<open>customer_send_payment\<close>, whatever the answer.
\<close>

lemma debit_rows_nonnegative:
  assumes "distinct (map wallet_id rows)" and "w \<in> set rows" and "t \<le> balance w"
    and "\<forall>x \<in> set rows. 0 \<le> balance x"
  shows "\<forall>x \<in> set (update_where (\<lambda>x. wallet_id x = wallet_id w)
                 (\<lambda>x. x\<lparr>balance := balance x - t, last_activity := n\<rparr>) rows). 0 \<le> balance x"
proof -
  have same: "r = w" if "r \<in> set rows" and "wallet_id r = wallet_id w" for r
    using that assms(1,2) by (meson distinct_map inj_onD)
  show ?thesis
    using assms(3,4) by (auto simp: update_where_def dest: same)
qed

lemma credit_rows_nonnegative:
  assumes "0 \<le> a" and "\<forall>x \<in> set rows. 0 \<le> balance x"
  shows "\<forall>x \<in> set (update_where P
                 (\<lambda>x. x\<lparr>balance := balance x + a, last_activity := n\<rparr>) rows). 0 \<le> balance x"
  using assms by (auto simp: update_where_def)

lemma customer_send_payment_cases:
  "(\<exists>e. customer_send_payment now tid usr data s = (Inl e, s))
   \<or> (\<exists>u amt ch recipient w. usr = Some u \<and> user_type u = ''customer''
          \<and> sp_amount data = Some amt \<and> sp_channel data = Some ch
          \<and> sp_recipient data = Some recipient \<and> truthy (request_phone data)
          \<and> sender_wallet data s = Some w
          \<and> customer_send_payment now tid usr data s
               = send_from_wallet now tid w amt ch recipient s)"
  by (simp add: customer_send_payment_def split: option.splits)

lemma send_from_wallet_refused:
  assumes "\<not> (amt + channel_fee ch \<le> balance w
              \<and> tid \<notin> set (map transaction_id (transactions s)))"
  shows "snd (send_from_wallet now tid w amt ch recipient s) = s"
proof -
  let ?s1 = "s\<lparr>wallets := update_where (\<lambda>x. wallet_id x = wallet_id w)
                (\<lambda>x. x\<lparr>balance := balance x - (amt + channel_fee ch), last_activity := now\<rparr>)
                (wallets s)\<rparr>"
  obtain rt s2 where hh: "handle_recipient now ch recipient amt ?s1 = (rt, s2)"
    by (cases "handle_recipient now ch recipient amt ?s1")
  have "transactions s2 = transactions s"
    using handle_recipient_transactions [of now ch recipient amt ?s1] hh by simp
  then show ?thesis
    using assms hh by (auto simp: send_from_wallet_def Let_def)
qed

lemma send_payment_keeps_balances_nonnegative:
  assumes "distinct (map wallet_id (wallets s))"
    and "\<forall>x \<in> set (wallets s). 0 \<le> balance x"
    and "sp_amount data = Some amt" and "0 \<le> amt"
  shows "\<forall>x \<in> set (wallets (snd (customer_send_payment now tid usr data s))). 0 \<le> balance x"
proof -
  from customer_send_payment_cases [of now tid usr data s]
  consider (refused) e where "customer_send_payment now tid usr data s = (Inl e, s)"
    | (found) ch recipient w where "sender_wallet data s = Some w"
        "customer_send_payment now tid usr data s
           = send_from_wallet now tid w amt ch recipient s"
    using assms(3) by auto
  then show ?thesis
  proof cases
    case refused
    then show ?thesis using assms(2) by simp
  next
    case found
    show ?thesis
    proof (cases "amt + channel_fee ch \<le> balance w
                  \<and> tid \<notin> set (map transaction_id (transactions s))")
      case False
      then show ?thesis
        using found(2) assms(2) by (simp add: send_from_wallet_refused)
    next
      case True
      let ?s1 = "s\<lparr>wallets := update_where (\<lambda>x. wallet_id x = wallet_id w)
                    (\<lambda>x. x\<lparr>balance := balance x - (amt + channel_fee ch), last_activity := now\<rparr>)
                    (wallets s)\<rparr>"
      let ?h = "handle_recipient now ch recipient amt ?s1"
      have mem: "w \<in> set (wallets s)"
      proof -
        from found(1) obtain P where "find P (wallets s) = Some w"
          by (auto simp: sender_wallet_def fetchone_def Let_def split: if_splits)
        then show ?thesis using find_Some_D [of P "wallets s" w] by simp
      qed
      have funds: "amt + channel_fee ch \<le> balance w" using True by simp
      have s1: "\<forall>x \<in> set (wallets ?s1). 0 \<le> balance x"
        using debit_rows_nonnegative [OF assms(1) mem funds assms(2), of now] by simp
      have s2: "\<forall>x \<in> set (wallets (snd ?h)). 0 \<le> balance x"
        using s1 credit_rows_nonnegative [OF assms(4) s1]
        by (simp add: handle_recipient_wallets_snd)
      obtain rt s2 where hh: "?h = (rt, s2)" by (cases ?h)
      have "transactions s2 = transactions s"
        using handle_recipient_transactions [of now ch recipient amt ?s1] hh by simp
      then have "wallets (snd (send_from_wallet now tid w amt ch recipient s)) = wallets s2"
        using True hh by (simp add: send_from_wallet_def Let_def)
      then show ?thesis using s2 hh found(2) by simp
    qed
  qed
qed

text \<open>
  Claim C9 at a failing input. \<^verbatim>\<open>customer_topup\<close> applies no check to the amount: a
  top-up of -50 on wallet B (balance 0) succeeds, leaves -50 and records a row of amount
  -50; a top-up of 0 and one of 0.001 succeed as well. \<^verbatim>\<open>merchant_topup_wallet\<close>
  refuses an amount that is not positive.
\<close>

theorem customer_topup_accepts_any_amount:
  "customer_topup 1 ''txn_1'' customer
        \<lparr>ct_amount = Some (- 50), ct_source = Some ''orange_money'', ct_reference = Some ''OM-1'',
         ct_customer_phone = Some ''+26772''\<rparr> example_db
   = (Inr \<lparr>ctr_transaction_id = ''txn_1'', ctr_amount = - 50, ctr_source = ''orange_money'',
           ctr_old_balance = 0, ctr_new_balance = - 50, ctr_reference = ''OM-1''\<rparr>,
      example_db\<lparr>wallets := [wallet_A, wallet_B\<lparr>balance := - 50, last_activity := 1\<rparr>, wallet_C],
                 transactions :=
                   [\<lparr>transaction_id = ''txn_1'', txn_wallet_id = ''pw_bw_b'',
                     from_wallet = None, to_wallet = Some ''pw_bw_b'', amount = - 50, fee = 0,
                     channel = ''orange_money'', description = ''Top-up from orange_money'',
                     external_reference = Some ''OM-1'', txn_created_at = 1,
                     txn_status = ''completed''\<rparr>]\<rparr>)
   \<and> succeeded (customer_topup 1 ''txn_1'' customer
        \<lparr>ct_amount = Some 0, ct_source = Some ''orange_money'', ct_reference = Some ''OM-1'',
         ct_customer_phone = Some ''+26772''\<rparr> example_db)
   \<and> succeeded (customer_topup 1 ''txn_1'' customer
        \<lparr>ct_amount = Some (1 / 1000), ct_source = Some ''orange_money'',
         ct_reference = Some ''OM-1'', ct_customer_phone = Some ''+26772''\<rparr> example_db)
   \<and> fst (merchant_topup_wallet 1 ''txn_1'' merchant_001 ''pw_bw_a''
        \<lparr>tu_amount = Some (- 50), tu_description = Some ''cash''\<rparr> example_db)
       = Inl AmountNotPositive"
  by (simp add: handler_defs example_defs merchant_001_def)


text \<open>
  The part of the accept-payment contract that \<^verbatim>\<open>customer_topup\<close> does keep: a call
  that succeeds appends one row with fee 0, no \<^verbatim>\<open>from_wallet\<close> and the credited
  wallet as \<^verbatim>\<open>to_wallet\<close>, and raises that wallet's balance by the full amount.
\<close>

lemma customer_topup_credits_full_amount:
  assumes "customer_topup now tid usr data s = (Inr resp, s')"
  shows "\<exists>amt w row. ct_amount data = Some amt
           \<and> fetchone (\<lambda>x. Some (customer_phone x) = ct_customer_phone data) (wallets s) = Some w
           \<and> transactions s' = transactions s @ [row]
           \<and> amount row = amt \<and> fee row = 0
           \<and> from_wallet row = None \<and> to_wallet row = Some (wallet_id w)
           \<and> ctr_new_balance resp = balance w + amt
           \<and> balance_of s' (wallet_id w) = balance_of s (wallet_id w) + amt"
proof -
  from assms obtain u amt source reference p w where
      h: "usr = Some u" "ct_amount data = Some amt" "ct_source data = Some source"
         "ct_reference data = Some reference" "ct_customer_phone data = Some p"
         "fetchone (\<lambda>x. customer_phone x = p) (wallets s) = Some w"
    by (auto simp: customer_topup_def py_or_def truthy_def split: option.splits if_splits)
  let ?s1 = "s\<lparr>wallets := update_where (\<lambda>x. wallet_id x = wallet_id w)
                 (\<lambda>x. x\<lparr>balance := balance x + amt, last_activity := now\<rparr>) (wallets s)\<rparr>"
  let ?row = "\<lparr>transaction_id = tid, txn_wallet_id = wallet_id w,
                 from_wallet = None, to_wallet = Some (wallet_id w),
                 amount = amt, fee = 0, channel = source,
                 description = ''Top-up from '' @ source,
                 external_reference = Some reference,
                 txn_created_at = now, txn_status = ''completed''\<rparr>"
  have res: "resp = \<lparr>ctr_transaction_id = tid, ctr_amount = amt,
                     ctr_source = source, ctr_old_balance = balance w,
                     ctr_new_balance = balance w + amt, ctr_reference = reference\<rparr>"
    and s': "s' = ?s1\<lparr>transactions := transactions ?s1 @ [?row]\<rparr>"
    using assms h
    by (auto simp: customer_topup_def py_or_def truthy_def Let_def split: if_splits)
  have mem: "wallet_id w \<in> set (map wallet_id (wallets s))"
    using h(6) find_Some_D [of "\<lambda>x. customer_phone x = p" "wallets s" w]
    by (auto simp: fetchone_def)
  have "balance_of s' (wallet_id w) = balance_of ?s1 (wallet_id w)"
    by (simp add: s' balance_of_def)
  also have "\<dots> = balance_of s (wallet_id w) + amt"
    using mem by (simp only: balance_of_update) simp
  finally have bal: "balance_of s' (wallet_id w) = balance_of s (wallet_id w) + amt" .
  have lookup: "fetchone (\<lambda>x. Some (customer_phone x) = ct_customer_phone data) (wallets s) = Some w"
    using h(5,6) by simp
  have tx: "transactions s' = transactions s @ [?row]"
    by (simp add: s')
  have rowf: "amount ?row = amt" "fee ?row = 0" "from_wallet ?row = None"
    "to_wallet ?row = Some (wallet_id w)"
    by simp_all
  have nb: "ctr_new_balance resp = balance w + amt"
    by (simp add: res)
  show ?thesis
    by (intro exI [of _ amt] exI [of _ w] exI [of _ ?row] conjI)
       (fact h(2) lookup tx rowf nb bal)+
qed

section \<open>Wallets that are not active\<close>

text \<open>
  Claim C8 at a failing input. Wallet C is inactive. Its merchant's top-up of 100 and a
  customer top-up of 100 for its phone number both succeed and raise its balance to 100;
  the wallet stays inactive.
\<close>

theorem topup_of_inactive_wallet_succeeds:
  "status wallet_C = ''inactive''
   \<and> succeeded (merchant_topup_wallet 1 ''txn_1'' merchant_001 ''pw_bw_c''
        \<lparr>tu_amount = Some 100, tu_description = Some ''cash''\<rparr> example_db)
   \<and> balance_of (snd (merchant_topup_wallet 1 ''txn_1'' merchant_001 ''pw_bw_c''
        \<lparr>tu_amount = Some 100, tu_description = Some ''cash''\<rparr> example_db)) ''pw_bw_c'' = 100
   \<and> succeeded (customer_topup 1 ''txn_1'' customer
        \<lparr>ct_amount = Some 100, ct_source = Some ''orange_money'', ct_reference = Some ''OM-1'',
         ct_customer_phone = Some ''+26773''\<rparr> example_db)
   \<and> balance_of (snd (customer_topup 1 ''txn_1'' customer
        \<lparr>ct_amount = Some 100, ct_source = Some ''orange_money'', ct_reference = Some ''OM-1'',
         ct_customer_phone = Some ''+26773''\<rparr> example_db)) ''pw_bw_c'' = 100
   \<and> map status (wallets (snd (customer_topup 1 ''txn_1'' customer
        \<lparr>ct_amount = Some 100, ct_source = Some ''orange_money'', ct_reference = Some ''OM-1'',
         ct_customer_phone = Some ''+26773''\<rparr> example_db)))
       = [''active'', ''active'', ''inactive'']"
  by (simp add: handler_defs example_defs merchant_001_def)

section \<open>The caller of send payment\<close>




section \<open>Rolling limits\<close>

lemmas enterprise_defs =
  process_payment_def check_limits_def daily_total_def monthly_total_def first_of_month_def
  scalar_or_0_def sequential_sum_def sql_real_def
  wallet_service_create_wallet_def MIN_TRANSACTION_AMOUNT_def MAX_TRANSACTION_AMOUNT_def
  DEFAULT_DAILY_LIMIT_def DEFAULT_MONTHLY_LIMIT_def
  example_store_def ent_wallet_def example_env_def




text \<open>
  The check is made on doubles. With 1.10 used of a daily limit of 3.30, a payment of
  2.20 is refused, although \<open>1.10 + 2.20 = 3.30\<close>: the float sum is
  3.3000000000000003.
\<close>

lemma rolling_limit_check_rounds:
  "(11 / 10 + 11 / 5 = (33 / 10 :: rat))
   \<and> process_payment sequential_sum example_env
        \<lparr>pr_wallet_id = ''w1'', pr_amount = fround (11 / 5), pr_method = MOBILE_MONEY,
         pr_description = ''deposit''\<rparr> decimal_store
     = (Inl (LIMIT_EXCEEDED (Daily_limit_exceeded (round64 (33 / 10)) (Finite (round64 (11 / 10))))),
        decimal_store)"
  by (simp add: enterprise_defs decimal_store_def decimal_values decimal_sums
        del: fadd.simps)

section \<open>One phone number, two businesses\<close>

text \<open>
  Claim C7 fails on the REST ledger: its \<^verbatim>\<open>create_wallet\<close> looks for the phone
  number in the whole \<^verbatim>\<open>wallets\<close> table. The phone of wallet A, which belongs to
  \<^verbatim>\<open>merchant_001\<close>, is refused for \<^verbatim>\<open>merchant_002\<close> with HTTP 409, and nothing
  is written.
\<close>

theorem create_wallet_phone_scope_counterexample:
  "business_id wallet_A = ''merchant_001'' \<and> customer_phone wallet_A = ''+26771''
   \<and> create_wallet 1
        \<lparr>gen_wallet_id = ''pw_bw_d'', gen_ussd_code = ''*167*D#'', gen_customer_pin = ''0000''\<rparr>
        (Some \<lparr>user_id = ''merchant_002'', user_type = ''merchant''\<rparr>)
        \<lparr>cw_customer_phone = Some ''+26771'', cw_customer_name = Some ''Thabo'',
         cw_customer_email = None, cw_initial_balance = None, cw_daily_limit = None\<rparr>
        example_db
      = (Inl CustomerAlreadyHasWallet, example_db)"
  by (simp add: handler_defs example_defs)

text \<open>
  Claim C7, amended. In the enterprise ledger, for an active business and customer data
  with a phone and a name, a code generator that returns and a fresh wallet id:
  \<^verbatim>\<open>WalletService.create_wallet\<close> answers that the customer already has a wallet with
  this business, leaving the store as it was, exactly when a wallet with this business and
  this phone exists; and it creates the wallet (appending one active row with balance 0
  for this business and phone) exactly when none exists, whatever wallets other
  businesses hold for the phone. In the REST ledger, for a merchant's request with phone
  and name, \<^verbatim>\<open>create_wallet\<close> answers that the customer already has a wallet, leaving
  the tables as they were, exactly when some wallet of any business has the phone.
\<close>

theorem create_wallet_phone_scope:
  assumes "find (\<lambda>b. b_id b = bid) (businesses st) = Some b"
    and "b_status b = Business_ACTIVE"
    and "cd_phone data = Some phone" and "cd_name data = Some name"
    and "generate_ussd_code draws st = Some code"
    and "new_id \<notin> set (map pw_id (phantom_wallets st))"
    and "user_type u = ''merchant''"
    and "cw_customer_phone d = Some phone'" and "cw_customer_name d = Some name'"
  shows "(wallet_service_create_wallet new_id draws bid data st
            = Some (Inl Already_has_wallet_with_business, st))
           = (find (\<lambda>w. pw_business_id w = bid \<and> pw_customer_phone w = phone)
                (phantom_wallets st) \<noteq> None)
       \<and> (\<exists>row. wallet_service_create_wallet new_id draws bid data st
                    = Some (Inr row, st\<lparr>phantom_wallets := phantom_wallets st @ [row]\<rparr>)
                \<and> pw_id row = new_id \<and> pw_business_id row = bid
                \<and> pw_customer_phone row = phone \<and> pw_ussd_code row = code
                \<and> pw_status row = ACTIVE \<and> pw_balance row = 0)
           = (find (\<lambda>w. pw_business_id w = bid \<and> pw_customer_phone w = phone)
                (phantom_wallets st) = None)
       \<and> (create_wallet now gen (Some u) d s = (Inl CustomerAlreadyHasWallet, s))
           = (fetchone (\<lambda>w. customer_phone w = phone') (wallets s) \<noteq> None)"
proof -
  let ?dup = "find (\<lambda>w. pw_business_id w = bid \<and> pw_customer_phone w = phone) (phantom_wallets st)"
  have a: "(wallet_service_create_wallet new_id draws bid data st
            = Some (Inl Already_has_wallet_with_business, st)) = (?dup \<noteq> None)"
    using assms(1-6)
    by (cases ?dup) (simp_all add: wallet_service_create_wallet_def Let_def)
  have b: "(\<exists>row. wallet_service_create_wallet new_id draws bid data st
                    = Some (Inr row, st\<lparr>phantom_wallets := phantom_wallets st @ [row]\<rparr>)
                \<and> pw_id row = new_id \<and> pw_business_id row = bid
                \<and> pw_customer_phone row = phone \<and> pw_ussd_code row = code
                \<and> pw_status row = ACTIVE \<and> pw_balance row = 0) = (?dup = None)"
    using assms(1-6)
    by (cases ?dup) (simp_all add: wallet_service_create_wallet_def Let_def)
  have c: "(create_wallet now gen (Some u) d s = (Inl CustomerAlreadyHasWallet, s))
           = (fetchone (\<lambda>w. customer_phone w = phone') (wallets s) \<noteq> None)"
    using assms(7-9)
    by (cases "fetchone (\<lambda>w. customer_phone w = phone') (wallets s)")
       (simp_all add: create_wallet_def Let_def)
  show ?thesis using a b c by blast
qed


text \<open>
  Business 1 of the small store has a wallet for \<^verbatim>\<open>+26771\<close>: a second one is refused
  for business 1 and created for business 2 (the first code drawn is taken, the second is
  used). In the REST ledger the same phone is refused for a second merchant.
\<close>

theorem create_wallet_phone_scope_witness:
  "wallet_service_create_wallet ''w2'' [''*0001#'', ''*0002#''] ''b1''
      \<lparr>cd_name = Some ''Thabo'', cd_phone = Some ''+26771'', cd_email = None,
       cd_daily_limit = None\<rparr> example_store
     = Some (Inl Already_has_wallet_with_business, example_store)
   \<and> (\<exists>row. wallet_service_create_wallet ''w2'' [''*0001#'', ''*0002#''] ''b2''
         \<lparr>cd_name = Some ''Thabo'', cd_phone = Some ''+26771'', cd_email = None,
          cd_daily_limit = None\<rparr> example_store
        = Some (Inr row, example_store\<lparr>phantom_wallets := [ent_wallet, row]\<rparr>)
        \<and> pw_business_id row = ''b2'' \<and> pw_customer_phone row = ''+26771''
        \<and> pw_ussd_code row = ''*0002#'')
   \<and> create_wallet 1
        \<lparr>gen_wallet_id = ''pw_bw_d'', gen_ussd_code = ''*167*D#'', gen_customer_pin = ''0000''\<rparr>
        (Some \<lparr>user_id = ''merchant_002'', user_type = ''merchant''\<rparr>)
        \<lparr>cw_customer_phone = Some ''+26771'', cw_customer_name = Some ''Thabo'',
         cw_customer_email = None, cw_initial_balance = None, cw_daily_limit = None\<rparr>
        example_db
      = (Inl CustomerAlreadyHasWallet, example_db)"
proof -
  let ?data = "\<lparr>cd_name = Some ''Thabo'', cd_phone = Some ''+26771'', cd_email = None,
       cd_daily_limit = None\<rparr>"
  let ?u = "\<lparr>user_id = ''merchant_002'', user_type = ''merchant''\<rparr>"
  let ?d = "\<lparr>cw_customer_phone = Some ''+26771'', cw_customer_name = Some ''Thabo'',
         cw_customer_email = None, cw_initial_balance = None, cw_daily_limit = None\<rparr>"
  let ?gen = "\<lparr>gen_wallet_id = ''pw_bw_d'', gen_ussd_code = ''*167*D#'', gen_customer_pin = ''0000''\<rparr>"
  have b1: "find (\<lambda>b. b_id b = ''b1'') (businesses example_store)
              = Some \<lparr>b_id = ''b1'', b_status = Business_ACTIVE, b_total_deposit_volume = 4500,
                      b_total_transaction_count = 1\<rparr>"
    and b2: "find (\<lambda>b. b_id b = ''b2'') (businesses example_store)
              = Some \<lparr>b_id = ''b2'', b_status = Business_ACTIVE, b_total_deposit_volume = 0,
                      b_total_transaction_count = 0\<rparr>"
    by (simp_all add: example_store_def)
  have code: "generate_ussd_code [''*0001#'', ''*0002#''] example_store = Some ''*0002#''"
    by (simp add: example_store_def ent_wallet_def)
  have fresh: "''w2'' \<notin> set (map pw_id (phantom_wallets example_store))"
    by (simp add: example_store_def ent_wallet_def)
  have dup1: "find (\<lambda>w. pw_business_id w = ''b1'' \<and> pw_customer_phone w = ''+26771'')
                (phantom_wallets example_store) \<noteq> None"
    and dup2: "find (\<lambda>w. pw_business_id w = ''b2'' \<and> pw_customer_phone w = ''+26771'')
                (phantom_wallets example_store) = None"
    by (simp_all add: example_store_def ent_wallet_def)
  have taken: "fetchone (\<lambda>w. customer_phone w = ''+26771'') (wallets example_db) \<noteq> None"
    by (simp add: fetchone_def example_defs)
  have ws: "phantom_wallets example_store = [ent_wallet]"
    by (simp add: example_store_def)
  note inst1 = create_wallet_phone_scope [where bid = "''b1''" and st = example_store
      and data = ?data and phone = "''+26771''" and name = "''Thabo''"
      and draws = "[''*0001#'', ''*0002#'']" and code = "''*0002#''" and new_id = "''w2''"
      and u = ?u and d = ?d and phone' = "''+26771''" and name' = "''Thabo''"
      and now = 1 and gen = ?gen and s = example_db, OF b1 _ _ _ code fresh]
  note inst2 = create_wallet_phone_scope [where bid = "''b2''" and st = example_store
      and data = ?data and phone = "''+26771''" and name = "''Thabo''"
      and draws = "[''*0001#'', ''*0002#'']" and code = "''*0002#''" and new_id = "''w2''"
      and u = ?u and d = ?d and phone' = "''+26771''" and name' = "''Thabo''"
      and now = 1 and gen = ?gen and s = example_db, OF b2 _ _ _ code fresh]
  have first: "wallet_service_create_wallet ''w2'' [''*0001#'', ''*0002#''] ''b1'' ?data example_store
     = Some (Inl Already_has_wallet_with_business, example_store)"
    using inst1 dup1 by simp
  have third: "create_wallet 1 ?gen (Some ?u) ?d example_db
                 = (Inl CustomerAlreadyHasWallet, example_db)"
    using inst1 taken by simp
  from inst2 dup2 obtain row where
    "wallet_service_create_wallet ''w2'' [''*0001#'', ''*0002#''] ''b2'' ?data example_store
        = Some (Inr row, example_store\<lparr>phantom_wallets := phantom_wallets example_store @ [row]\<rparr>)"
    "pw_business_id row = ''b2''" "pw_customer_phone row = ''+26771''"
    "pw_ussd_code row = ''*0002#''"
    by auto
  then have second: "\<exists>row. wallet_service_create_wallet ''w2'' [''*0001#'', ''*0002#''] ''b2''
         ?data example_store
        = Some (Inr row, example_store\<lparr>phantom_wallets := [ent_wallet, row]\<rparr>)
        \<and> pw_business_id row = ''b2'' \<and> pw_customer_phone row = ''+26771''
        \<and> pw_ussd_code row = ''*0002#''"
    by (auto simp: ws)
  show ?thesis using first second third by blast
qed

end
